theory Spec2Isabelle
  imports Complex_Main "HOL-Library.Word" "HOL-Library.AList" "HOL-Library.Char_ord"
    "HOL-Library.List_Lexorder"
begin

section \<open>The input readers of \<open>Code/read.py\<close>\<close>

text \<open>
  The module reads tabular input files with pandas and reshapes them lightly. The
  embedding below follows the Python file function by function. Three things lie outside
  the file and are made explicit:
  \<^item> exceptions are values: every function returns \<open>error + 'a\<close>, with \<open>Inl\<close> the
    exception raised;
  \<^item> the constants of the absent modules \<open>parameters\<close> and \<open>paths\<close> (\<open>fields\<close>,
    \<open>states_nhd\<close>, \<open>pwc_durations\<close>, the path templates) and the contents of the files
    are fields of an environment record, never fixed to particular values;
  \<^item> pandas operations are written out on a column-major table where the code depends
    on what they compute (column selection, assignment, \<open>pop\<close>, \<open>dropna\<close>, \<open>concat\<close>,
    \<open>melt\<close>, \<open>str.split\<close>, \<open>rename\<close>); the relational join \<open>merge\<close> and the
    parsing of a file's text are operations of the environment.
\<close>

subsection \<open>Exceptions\<close>

datatype error =
    FileNotFoundError string
  | KeyError string
  | ValueError string
  | TypeError string
  | NameError string
  | AttributeError string
  | OverflowError string
  | FutureWarning string
  | LibraryError string
  | KeyboardInterrupt

text \<open>
  Every constructor but \<open>KeyboardInterrupt\<close> is a subclass of Python's \<open>Exception\<close>
  (\<open>FutureWarning\<close> is one through \<open>Warning\<close>); \<open>KeyboardInterrupt\<close> stands for the
  exceptions that derive from \<open>BaseException\<close> only, which \<open>except Exception\<close> does not
  catch. \<open>LibraryError\<close> is any other exception raised inside pandas or the absent modules.
\<close>

fun is_Exception :: "error \<Rightarrow> bool" where
  "is_Exception KeyboardInterrupt = False"
| "is_Exception _ = True"

definition bindE :: "error + 'a \<Rightarrow> ('a \<Rightarrow> error + 'b) \<Rightarrow> error + 'b" where
  "bindE m f = (case m of Inl e \<Rightarrow> Inl e | Inr x \<Rightarrow> f x)"

fun mapE :: "('a \<Rightarrow> error + 'b) \<Rightarrow> 'a list \<Rightarrow> error + 'b list" where
  "mapE f [] = Inr []"
| "mapE f (x # xs) = bindE (f x) (\<lambda>y. bindE (mapE f xs) (\<lambda>ys. Inr (y # ys)))"

subsection \<open>The decorator \<open>test_path\<close>\<close>

text \<open>
  \<^verbatim>\<open>
  def test_path(f):
      def wrapped(*args, **kwargs):
          try:
              r = f(*args, **kwargs)
              return r
          except Exception as e:
              raise e
      return wrapped
  \<close>
  The arguments (positional and keyword) are one value of type \<open>'a\<close>. An exception that
  is an \<open>Exception\<close> is caught and raised again; any other passes the handler by.
\<close>

definition test_path :: "('a \<Rightarrow> error + 'b) \<Rightarrow> 'a \<Rightarrow> error + 'b" where
  "test_path f args =
     (case f args of
        Inr r \<Rightarrow> Inr r
      | Inl e \<Rightarrow> (if is_Exception e then Inl e else Inl e))"

subsection \<open>Cells and tables\<close>

text \<open>
  A cell carries its own kind; a column's dtype is not stored apart from its cells, so
  the conversion pandas makes of a whole column when a cell of another kind enters it (an
  integer column that receives a missing value becomes \<open>float64\<close>) is not modelled.
  \<open>NaN\<close> is pandas' missing value (\<open>NaN\<close>, \<open>None\<close>, \<open>NaT\<close>). Fixed-width integers
  are words, so their arithmetic wraps as NumPy's does; a \<open>float64\<close> is modelled by
  the real number it stands for (rounding and infinities are outside the model).
\<close>

datatype cell =
    NaN
  | Str string
  | Bool bool
  | I64 "64 word"
  | F64 real
  | U32 "32 word"
  | I32 "32 word"
  | I16 "16 word"

text \<open>The number a cell stands for; a missing value and a text have none.\<close>

fun cell_num :: "cell \<Rightarrow> real option" where
  "cell_num NaN = None"
| "cell_num (Str s) = None"
| "cell_num (Bool b) = Some (if b then 1 else 0)"
| "cell_num (I64 w) = Some (real_of_int (sint w))"
| "cell_num (F64 r) = Some r"
| "cell_num (U32 w) = Some (real (unat w))"
| "cell_num (I32 w) = Some (real_of_int (sint w))"
| "cell_num (I16 w) = Some (real_of_int (sint w))"

text \<open>Whether a cell is a text.\<close>

definition is_str :: "cell \<Rightarrow> bool" where
  "is_str v = (case v of Str s \<Rightarrow> True | _ \<Rightarrow> False)"

text \<open>
  A table is the ordered list of its columns, each a name with its cells; pandas' row
  index is not modelled. The columns of a table pandas built have one length, the number
  of its rows (\<open>nrows\<close> reads it off the first column; a table without columns has no
  rows). \<open>wf_table\<close> says that the names are distinct and the lengths agree.
\<close>

type_synonym table = "(string \<times> cell list) list"

definition columns :: "table \<Rightarrow> string list" where
  "columns t = map fst t"

definition nrows :: "table \<Rightarrow> nat" where
  "nrows t = (case t of [] \<Rightarrow> 0 | (c, vs) # rest \<Rightarrow> length vs)"

definition wf_table :: "table \<Rightarrow> bool" where
  "wf_table t = (distinct (map fst t) \<and> list_all (\<lambda>(c, vs). length vs = nrows t) t)"

text \<open>\<open>df[col]\<close>: a missing column is a \<open>KeyError\<close>.\<close>

definition getitem :: "table \<Rightarrow> string \<Rightarrow> error + cell list" where
  "getitem t col = (case map_of t col of None \<Rightarrow> Inl (KeyError col) | Some vs \<Rightarrow> Inr vs)"

text \<open>\<open>df.col\<close>: a missing column is an \<open>AttributeError\<close>.\<close>

definition getattr :: "table \<Rightarrow> string \<Rightarrow> error + cell list" where
  "getattr t col = (case map_of t col of None \<Rightarrow> Inl (AttributeError col) | Some vs \<Rightarrow> Inr vs)"

text \<open>\<open>df[[c1, ..., cn]]\<close>: the named columns in the order asked.\<close>

definition select_cols :: "table \<Rightarrow> string list \<Rightarrow> error + table" where
  "select_cols t cols = mapE (\<lambda>c. bindE (getitem t c) (\<lambda>vs. Inr (c, vs))) cols"

text \<open>
  \<open>df[col] = values\<close>: an existing column is overwritten in place, a new one is appended
  after the last column. \<open>df[col] = scalar\<close> fills the column with the scalar.
\<close>

definition setitem :: "table \<Rightarrow> string \<Rightarrow> cell list \<Rightarrow> table" where
  "setitem t col vs = AList.update col vs t"

definition setitem_scalar :: "table \<Rightarrow> string \<Rightarrow> cell \<Rightarrow> table" where
  "setitem_scalar t col v = setitem t col (replicate (nrows t) v)"

text \<open>\<open>df.pop(col)\<close>: the column, and the table without it.\<close>

definition pop :: "table \<Rightarrow> string \<Rightarrow> error + (cell list \<times> table)" where
  "pop t col = bindE (getitem t col) (\<lambda>vs. Inr (vs, AList.delete col t))"

text \<open>Boolean indexing \<open>df[mask]\<close>: the rows whose mask is true, in order.\<close>

definition filter_mask :: "bool list \<Rightarrow> 'a list \<Rightarrow> 'a list" where
  "filter_mask keep vs = map snd (filter fst (zip keep vs))"

definition filter_rows :: "bool list \<Rightarrow> table \<Rightarrow> table" where
  "filter_rows keep t = map (\<lambda>(c, vs). (c, filter_mask keep vs)) t"

text \<open>
  \<open>df.dropna(subset=cols)\<close>: a \<open>KeyError\<close> when a column of \<open>cols\<close> is absent; else
  the rows that have no missing value in any column of \<open>cols\<close>.
\<close>

definition notna_mask :: "table \<Rightarrow> nat \<Rightarrow> bool list" where
  "notna_mask sub n = map (\<lambda>i. list_all (\<lambda>(c, vs). vs ! i \<noteq> NaN) sub) [0..<n]"

definition dropna :: "table \<Rightarrow> string list \<Rightarrow> error + table" where
  "dropna t cols =
     bindE (select_cols t cols) (\<lambda>sub. Inr (filter_rows (notna_mask sub (nrows t)) t))"

text \<open>
  \<open>pd.concat(tables, axis=0)\<close>: a \<open>ValueError\<close> on the empty list; else the columns of
  all tables in order of first appearance, each holding the tables' cells one after
  another, a table without the column contributing missing values.
\<close>

definition first_seen :: "'a list \<Rightarrow> 'a list" where
  "first_seen xs = rev (remdups (rev xs))"

definition col_or_nan :: "table \<Rightarrow> string \<Rightarrow> cell list" where
  "col_or_nan t c = (case map_of t c of None \<Rightarrow> replicate (nrows t) NaN | Some vs \<Rightarrow> vs)"

definition pd_concat :: "table list \<Rightarrow> error + table" where
  "pd_concat ts =
     (if ts = [] then Inl (ValueError ''No objects to concatenate'')
      else Inr (map (\<lambda>c. (c, concat (map (\<lambda>t. col_or_nan t c) ts)))
                  (first_seen (concat (map columns ts)))))"

subsection \<open>The environment\<close>

datatype dtype = Uint32 | Int16 | Int32 | Int64 | Float64 | BoolT | Object

datatype dtype_arg = Inferred | AllCols dtype | PerCol "(string \<times> dtype) list"

record read_opts =
  usecols :: "string list option"
  dtype :: dtype_arg
  names :: "string list option"
  delimiter :: "string option"

definition default_opts :: read_opts where
  "default_opts = \<lparr>usecols = None, dtype = Inferred, names = None, delimiter = None\<rparr>"

text \<open>An argument handed to \<open>str.format\<close> on a path template.\<close>

datatype arg = ANone | AStr string | AInt int

text \<open>
  The object \<open>fields\<close> of the absent module \<open>parameters\<close>: \<open>fetch name\<close> is
  \<open>fields.fetch(name)\<close>, \<open>fetch_dtypes name col\<close> is
  \<open>fields.fetch(name, dtypes=True, col=col)\<close> (\<open>None\<close> for the default \<open>col\<close>), and
  \<open>convert\<close> is the mapping \<open>fields.convert\<close>.
\<close>

record field_table =
  fetch :: "string \<Rightarrow> error + string list"
  fetch_dtypes :: "string \<Rightarrow> string option \<Rightarrow> error + (string list \<times> (string \<times> dtype) list)"
  convert :: "string \<Rightarrow> string option"

datatype how = Inner | Outer | Left | Right

text \<open>
  The environment of a call. \<open>parse_csv path opts\<close> is what \<open>pd.read_csv\<close> makes of
  the whole file at \<open>path\<close> under the options; \<open>pd_merge l r on how suffixes\<close> is
  \<open>pd.merge\<close>; \<open>fields_now\<close> is the state of the object \<open>fields\<close> when the call starts
  and \<open>refresh\<close> is \<open>fields.refresh()\<close>; \<open>py_int\<close> is Python's \<open>int()\<close> on a text
  (\<open>None\<close> where it raises); the rest are the constants of \<open>parameters\<close> and \<open>paths\<close>,
  a path template being the function from its \<open>format\<close> arguments to the path.
\<close>

record env =
  parse_csv :: "string \<Rightarrow> read_opts \<Rightarrow> error + table"
  pd_merge :: "table \<Rightarrow> table \<Rightarrow> string list \<Rightarrow> how \<Rightarrow> string \<times> string \<Rightarrow> error + table"
  fields_now :: field_table
  refresh :: "field_table \<Rightarrow> error + field_table"
  py_int :: "string \<Rightarrow> int option"
  states_nhd :: "string option \<Rightarrow> string list option"
  pwc_durations :: "string list"
  combo_path :: "arg list \<Rightarrow> string"
  condensed_soil_path :: "arg list \<Rightarrow> string"
  pwc_scenario_path :: "arg list \<Rightarrow> string"
  reconstituted_path :: "arg list \<Rightarrow> string"
  crop_group_path :: string
  crop_params_path :: string
  crop_dates_path :: string
  irrigation_path :: string
  gen_params_path :: string
  gdd_input_path :: string

text \<open>
  \<open>pd.read_csv(path, ..., nrows=n)\<close>: with \<open>nrows\<close> given, only the first \<open>n\<close> data
  rows of the file are read.
\<close>

definition head_rows :: "nat \<Rightarrow> table \<Rightarrow> table" where
  "head_rows n t = map (\<lambda>(c, vs). (c, take n vs)) t"

definition read_csv :: "env \<Rightarrow> string \<Rightarrow> read_opts \<Rightarrow> nat option \<Rightarrow> error + table" where
  "read_csv E path opts nrows_arg =
     bindE (parse_csv E path opts)
       (\<lambda>t. Inr (case nrows_arg of None \<Rightarrow> t | Some n \<Rightarrow> head_rows n t))"

subsection \<open>\<open>combinations\<close>\<close>

text \<open>
  \<^verbatim>\<open>
  def combinations(region, years, nrows=None):
      all_combos = None
      for year in years:
          header = ['gridcode', 'cdl', 'weather_grid', 'mukey', 'area']
          combo_file = combo_path.format(region, year)
          combos = pd.read_csv(combo_file, dtype=np.uint32, nrows=nrows)[header]
          combos['year'] = np.int16(year)
          all_combos = combos if all_combos is None else pd.concat([all_combos, combos], axis=0)
      return all_combos
  \<close>
  \<open>np.int16(year)\<close> is NumPy's cast of the Python integer to 16 bits. The function
  returns, with its result, the paths it handed to \<open>read_csv\<close>, in order.
\<close>

definition header :: "string list" where
  "header = [''gridcode'', ''cdl'', ''weather_grid'', ''mukey'', ''area'']"

definition np_int16 :: "int \<Rightarrow> cell" where
  "np_int16 year = I16 (word_of_int year)"

definition combo_file :: "env \<Rightarrow> string \<Rightarrow> int \<Rightarrow> string" where
  "combo_file E region year = combo_path E [AStr region, AInt year]"

definition combos :: "env \<Rightarrow> string \<Rightarrow> nat option \<Rightarrow> int \<Rightarrow> error + table" where
  "combos E region nrows_arg year =
     bindE (read_csv E (combo_file E region year) (default_opts\<lparr>dtype := AllCols Uint32\<rparr>) nrows_arg)
       (\<lambda>t. bindE (select_cols t header)
         (\<lambda>c. Inr (setitem_scalar c ''year'' (np_int16 year))))"

fun combinations_loop ::
  "env \<Rightarrow> string \<Rightarrow> nat option \<Rightarrow> int list \<Rightarrow> string list \<Rightarrow> table option
     \<Rightarrow> string list \<times> (error + table option)" where
  "combinations_loop E region nrows_arg [] reads all_combos = (reads, Inr all_combos)"
| "combinations_loop E region nrows_arg (year # years) reads all_combos =
     (case bindE (combos E region nrows_arg year)
             (\<lambda>c. case all_combos of None \<Rightarrow> Inr c | Some a \<Rightarrow> pd_concat [a, c]) of
        Inl e \<Rightarrow> (reads @ [combo_file E region year], Inl e)
      | Inr t \<Rightarrow>
          combinations_loop E region nrows_arg years (reads @ [combo_file E region year]) (Some t))"

definition combinations ::
  "env \<Rightarrow> string \<Rightarrow> int list \<Rightarrow> nat option \<Rightarrow> string list \<times> (error + table option)" where
  "combinations E region years nrows_arg = combinations_loop E region nrows_arg years [] None"


definition spec_vstack :: "string list \<Rightarrow> table list \<Rightarrow> table" where
  "spec_vstack cols ts = map (\<lambda>c. (c, concat (map (\<lambda>t. col_or_nan t c) ts))) cols"

subsection \<open>\<open>gdd\<close>\<close>

text \<open>
  \<^verbatim>\<open>
  def gdd(grapes=False):
      if not grapes:
          table = pd.read_csv(gdd_input_path)
          for col in table.columns.values:
              if col.endswith("temp_f"):
                  table[col.rstrip('_f')] = (table.pop(col) - 32.) * (5 / 9)
      else:
          raise FutureWarning("Haven't implemented grapes yet")
      table = table.dropna(subset=['emergence_gdd', 'maxcover_gdd', 'emergence_base_temp', 'maxcover_base_temp'])
      return table
  \<close>
  The loop runs over the column names the table had when it was read. Like
  \<open>combinations\<close>, the function returns the paths handed to \<open>read_csv\<close> with its result.
\<close>

definition endswith :: "string \<Rightarrow> string \<Rightarrow> bool" where
  "endswith s suf = (length suf \<le> length s \<and> drop (length s - length suf) s = suf)"

text \<open>\<open>s.rstrip(chars)\<close> removes every trailing character that occurs in \<open>chars\<close>.\<close>

definition rstrip :: "string \<Rightarrow> string \<Rightarrow> string" where
  "rstrip s chars = rev (dropWhile (\<lambda>c. c \<in> set chars) (rev s))"

text \<open>\<open>(v - 32.) * (5 / 9)\<close> on one cell: a missing value stays missing, a text raises.\<close>

definition f_to_c :: "cell \<Rightarrow> error + cell" where
  "f_to_c v =
     (case cell_num v of
        Some x \<Rightarrow> Inr (F64 ((x - 32) * (5 / 9)))
      | None \<Rightarrow>
          (case v of
             Str s \<Rightarrow> Inl (TypeError ''unsupported operand type(s) for -'')
           | _ \<Rightarrow> Inr NaN))"

fun gdd_loop :: "string list \<Rightarrow> table \<Rightarrow> error + table" where
  "gdd_loop [] table = Inr table"
| "gdd_loop (col # cols) table =
     (if endswith col ''temp_f'' then
        bindE (pop table col) (\<lambda>(vs, table').
        bindE (mapE f_to_c vs) (\<lambda>ws.
        gdd_loop cols (setitem table' (rstrip col ''_f'') ws)))
      else gdd_loop cols table)"

definition gdd_subset :: "string list" where
  "gdd_subset = [''emergence_gdd'', ''maxcover_gdd'', ''emergence_base_temp'', ''maxcover_base_temp'']"

definition gdd :: "env \<Rightarrow> bool \<Rightarrow> string list \<times> (error + table)" where
  "gdd E grapes =
     (if \<not> grapes then
        ([gdd_input_path E],
         bindE (read_csv E (gdd_input_path E) default_opts None) (\<lambda>table.
         bindE (gdd_loop (columns table) table) (\<lambda>table.
         dropna table gdd_subset)))
      else ([], Inl (FutureWarning ''Haven't implemented grapes yet'')))"

text \<open>
  The claim's wording of the result, to compare \<open>gdd\<close> with. \<open>strip_f c\<close> is the name
  \<open>c\<close> without its last two characters, the trailing \<open>_f\<close>; \<open>celsius v\<close> is
  \<open>(v - 32) * 5/9\<close>, a missing value staying missing. \<open>spec_gdd_columns t\<close> is the
  table with every column whose name ends in \<open>temp_f\<close> replaced: the other columns as
  they are and in their order, then the converted columns under their stripped names.
  \<open>complete_row t i\<close> says that row \<open>i\<close> has no missing value in any of the four
  columns, and \<open>spec_gdd t\<close> keeps exactly the complete rows of the converted table.
\<close>

definition strip_f :: "string \<Rightarrow> string" where
  "strip_f c = butlast (butlast c)"

definition celsius :: "cell \<Rightarrow> cell" where
  "celsius v = (case cell_num v of Some x \<Rightarrow> F64 ((x - 32) * 5 / 9) | None \<Rightarrow> NaN)"

definition spec_gdd_columns :: "table \<Rightarrow> table" where
  "spec_gdd_columns t =
     filter (\<lambda>(c, vs). \<not> endswith c ''temp_f'') t
     @ map (\<lambda>(c, vs). (strip_f c, map celsius vs)) (filter (\<lambda>(c, vs). endswith c ''temp_f'') t)"

definition complete_row :: "table \<Rightarrow> nat \<Rightarrow> bool" where
  "complete_row t i = list_all (\<lambda>c. col_or_nan t c ! i \<noteq> NaN) gdd_subset"

definition spec_gdd :: "table \<Rightarrow> table" where
  "spec_gdd t =
     (let converted = spec_gdd_columns t
      in filter_rows (map (complete_row converted) [0..<nrows converted]) converted)"

text \<open>
  The input tables of the theorem on \<open>gdd\<close>: the column names are distinct (as
  \<open>read_csv\<close> makes them), a column whose name ends in \<open>temp_f\<close> holds no text and its
  stripped name is not the name of a column of the table, and the four columns exist once
  the \<open>temp_f\<close> columns are renamed.
\<close>

definition no_text :: "cell list \<Rightarrow> bool" where
  "no_text vs = list_all (\<lambda>v. \<not> is_str v) vs"

definition gdd_input :: "table \<Rightarrow> bool" where
  "gdd_input t =
     (distinct (columns t)
      \<and> list_all (\<lambda>(c, vs). endswith c ''temp_f'' \<longrightarrow>
            no_text vs \<and> strip_f c \<notin> set (columns t)) t
      \<and> list_all (\<lambda>c. c \<in> set (columns (spec_gdd_columns t))) gdd_subset)"

subsection \<open>\<open>crop\<close>\<close>

text \<open>
  \<^verbatim>\<open>
  def crop(region):
      fields.refresh()
      index_fields, dtypes = fields.fetch('CropGroups', dtypes=True)
      crop_index = pd.read_csv(crop_group_path, usecols=index_fields, dtype=dtypes)
      param_fields, dtypes = fields.fetch('CropParams', dtypes=True, col='external_name')
      crop_params = pd.read_csv(crop_params_path, usecols=param_fields, dtype=dtypes)
      date_fields, dtypes = fields.fetch('CropDates', dtypes=True)
      crop_dates = pd.read_csv(crop_dates_path, usecols=date_fields, dtype=dtypes)
      for field in fields.fetch('date'):
          crop_dates[field] = (pd.to_datetime(crop_dates[field], format=date_fmt)
                               - pd.to_datetime("1900-01-01")).dt.days
      for stage in ['begin', 'end', 'begin_active', 'end_active']:
          crop_dates.loc[crop_dates[f'plant_{stage}'] > crop_dates[f'harvest_{stage}'],
                         f'harvest_{stage}'] += 365
      irrigation_fields, dtypes = fields.fetch('Irrigation', dtypes=True)
      irrigation_data = pd.read_csv(irrigation_path, usecols=irrigation_fields, dtype=dtypes)
      group_fields, dtypes = fields.fetch('CurveNumbers', dtypes=True)
      group_params = pd.read_csv(gen_params_path, usecols=group_fields, dtype=dtypes)
      group_params = group_params[group_params.region == region]
      data = crop_index.merge(crop_params, on=['cdl', 'cdl_alias'], how='left') \
          .merge(crop_dates, on=['cdl', 'cdl_alias'], how='left', suffixes=('', '_burn')) \
          .merge(irrigation_data, on=['cdl_alias', 'state'], how='left') \
          .merge(group_params, on='pwc_class', how='left', suffixes=('_cdl', '_gen'))
      data[['evergreen', 'alt_date']] = data[['evergreen', 'alt_date']].fillna(0).astype(bool)
      return data
  \<close>
\<close>

definition usecols_dtype :: "string list \<Rightarrow> (string \<times> dtype) list \<Rightarrow> read_opts" where
  "usecols_dtype cols dtypes = default_opts\<lparr>usecols := Some cols, dtype := PerCol dtypes\<rparr>"

text \<open>
  The body of the date loop. The name \<open>date_fmt\<close> is bound nowhere in the module (it
  is neither defined nor imported), so once \<open>crop_dates[field]\<close> has been evaluated the
  keyword argument \<open>format=date_fmt\<close> raises \<open>NameError\<close>; no conversion is ever made.
\<close>

definition to_days :: "table \<Rightarrow> string \<Rightarrow> error + table" where
  "to_days crop_dates field =
     bindE (getitem crop_dates field) (\<lambda>vs. Inl (NameError ''date_fmt''))"

fun to_days_loop :: "string list \<Rightarrow> table \<Rightarrow> error + table" where
  "to_days_loop [] crop_dates = Inr crop_dates"
| "to_days_loop (field # rest) crop_dates =
     bindE (to_days crop_dates field) (to_days_loop rest)"

text \<open>
  \<open>a > b\<close> on two cells: numbers compare by value, a missing value compares false,
  two texts compare lexicographically, a text against a number raises.
\<close>

definition cell_gt :: "cell \<Rightarrow> cell \<Rightarrow> error + bool" where
  "cell_gt a b =
     (case (cell_num a, cell_num b) of
        (Some x, Some y) \<Rightarrow> Inr (y < x)
      | _ \<Rightarrow>
          (if a = NaN \<or> b = NaN then Inr False
           else (case (a, b) of
                   (Str x, Str y) \<Rightarrow> Inr (y < x)
                 | _ \<Rightarrow> Inl (TypeError ''> not supported between these instances''))))"

text \<open>\<open>v + n\<close> for a Python integer \<open>n\<close>: fixed-width integers wrap, a text raises.\<close>

fun cell_add :: "cell \<Rightarrow> int \<Rightarrow> error + cell" where
  "cell_add NaN n = Inr NaN"
| "cell_add (Str s) n = Inl (TypeError ''can only concatenate str to str'')"
| "cell_add (Bool b) n = Inr (I64 (word_of_int ((if b then 1 else 0) + n)))"
| "cell_add (I64 w) n = Inr (I64 (w + word_of_int n))"
| "cell_add (F64 r) n = Inr (F64 (r + real_of_int n))"
| "cell_add (U32 w) n = Inr (U32 (w + word_of_int n))"
| "cell_add (I32 w) n = Inr (I32 (w + word_of_int n))"
| "cell_add (I16 w) n = Inr (I16 (w + word_of_int n))"

definition stages :: "string list" where
  "stages = [''begin'', ''end'', ''begin_active'', ''end_active'']"

text \<open>
  One pass of the harvest loop, \<open>plant_col stage\<close> and \<open>harvest_col stage\<close> being the
  names \<open>f'plant_{stage}'\<close> and \<open>f'harvest_{stage}'\<close>: the mask \<open>plant > harvest\<close> is
  computed over all rows, then 365 is added to the harvest cells the mask selects, and
  the column is stored back.
\<close>

definition plant_col :: "string \<Rightarrow> string" where
  "plant_col stage = ''plant_'' @ stage"

definition harvest_col :: "string \<Rightarrow> string" where
  "harvest_col stage = ''harvest_'' @ stage"

definition add_365 :: "table \<Rightarrow> string \<Rightarrow> error + table" where
  "add_365 crop_dates stage =
     bindE (getitem crop_dates (plant_col stage)) (\<lambda>plant.
     bindE (getitem crop_dates (harvest_col stage)) (\<lambda>harvest.
     bindE (mapE (\<lambda>(p, h). cell_gt p h) (zip plant harvest)) (\<lambda>sel.
     bindE (mapE (\<lambda>(s, h). if s then cell_add h 365 else Inr h) (zip sel harvest)) (\<lambda>harvest'.
     Inr (setitem crop_dates (harvest_col stage) harvest')))))"

fun add_365_loop :: "string list \<Rightarrow> table \<Rightarrow> error + table" where
  "add_365_loop [] crop_dates = Inr crop_dates"
| "add_365_loop (stage # rest) crop_dates =
     bindE (add_365 crop_dates stage) (add_365_loop rest)"

text \<open>
  The claim's wording of the harvest adjustment, to compare the loop with. A day offset is
  what \<open>.dt.days\<close> yields: a 64-bit integer (small enough for 365 to be added without
  wrapping), a float where the column has missing dates, or a missing value.
  \<open>offset_gt p h\<close> says that the plant offset is strictly greater than the harvest
  offset, \<open>plus_365 h\<close> is the offset \<open>h\<close> plus 365, and \<open>spec_harvest t stage\<close> is the
  harvest column of the stage as the claim has it after the adjustment.
  \<open>day_columns t stage\<close> says that the table holds the stage's two columns, of one
  length, with day offsets in them.
\<close>

fun day_offset :: "cell \<Rightarrow> bool" where
  "day_offset (I64 w) = (sint w < 2 ^ 63 - 365)"
| "day_offset (F64 r) = True"
| "day_offset NaN = True"
| "day_offset _ = False"


definition plus_365 :: "cell \<Rightarrow> cell" where
  "plus_365 h =
     (case h of
        I64 w \<Rightarrow> I64 (word_of_int (sint w + 365))
      | F64 r \<Rightarrow> F64 (r + 365)
      | _ \<Rightarrow> h)"



text \<open>\<open>group_params[group_params.region == region]\<close>.\<close>

definition region_rows :: "table \<Rightarrow> string \<Rightarrow> error + table" where
  "region_rows group_params region =
     bindE (getattr group_params ''region'') (\<lambda>r.
     Inr (filter_rows (map (\<lambda>c. c = Str region) r) group_params))"

text \<open>\<open>.fillna(0).astype(bool)\<close> on one cell.\<close>

definition fillna0_bool :: "cell \<Rightarrow> cell" where
  "fillna0_bool v =
     (case cell_num v of
        Some x \<Rightarrow> Bool (x \<noteq> 0)
      | None \<Rightarrow> (case v of Str s \<Rightarrow> Bool (s \<noteq> []) | _ \<Rightarrow> Bool False))"

definition flags_as_bool :: "table \<Rightarrow> error + table" where
  "flags_as_bool data =
     bindE (select_cols data [''evergreen'', ''alt_date'']) (\<lambda>sub.
     Inr (fold (\<lambda>(c, vs) d. setitem d c (map fillna0_bool vs)) sub data))"

definition default_suffixes :: "string \<times> string" where
  "default_suffixes = (''_x'', ''_y'')"

definition crop :: "env \<Rightarrow> string \<Rightarrow> error + table" where
  "crop E region =
     bindE (refresh E (fields_now E)) (\<lambda>F.
     bindE (fetch_dtypes F ''CropGroups'' None) (\<lambda>(index_fields, dtypes).
     bindE (read_csv E (crop_group_path E) (usecols_dtype index_fields dtypes) None) (\<lambda>crop_index.
     bindE (fetch_dtypes F ''CropParams'' (Some ''external_name'')) (\<lambda>(param_fields, dtypes).
     bindE (read_csv E (crop_params_path E) (usecols_dtype param_fields dtypes) None) (\<lambda>crop_params.
     bindE (fetch_dtypes F ''CropDates'' None) (\<lambda>(date_fields, dtypes).
     bindE (read_csv E (crop_dates_path E) (usecols_dtype date_fields dtypes) None) (\<lambda>crop_dates.
     bindE (fetch F ''date'') (\<lambda>dates.
     bindE (to_days_loop dates crop_dates) (\<lambda>crop_dates.
     bindE (add_365_loop stages crop_dates) (\<lambda>crop_dates.
     bindE (fetch_dtypes F ''Irrigation'' None) (\<lambda>(irrigation_fields, dtypes).
     bindE (read_csv E (irrigation_path E) (usecols_dtype irrigation_fields dtypes) None) (\<lambda>irrigation_data.
     bindE (fetch_dtypes F ''CurveNumbers'' None) (\<lambda>(group_fields, dtypes).
     bindE (read_csv E (gen_params_path E) (usecols_dtype group_fields dtypes) None) (\<lambda>group_params.
     bindE (region_rows group_params region) (\<lambda>group_params.
     bindE (pd_merge E crop_index crop_params [''cdl'', ''cdl_alias''] Left default_suffixes) (\<lambda>data.
     bindE (pd_merge E data crop_dates [''cdl'', ''cdl_alias''] Left ([], ''_burn'')) (\<lambda>data.
     bindE (pd_merge E data irrigation_data [''cdl_alias'', ''state''] Left default_suffixes) (\<lambda>data.
     bindE (pd_merge E data group_params [''pwc_class''] Left (''_cdl'', ''_gen'')) (\<lambda>data.
     flags_as_bool data)))))))))))))))))))"

subsection \<open>\<open>soils\<close> and \<open>ssurgo\<close>\<close>

text \<open>
  \<^verbatim>\<open>
  def soils(mode, region=None, state=None):
      fields.refresh()
      if region is None and state is not None:
          region_states = [state]
      else:
          region_states = states_nhd[region]
      state_tables = []
      valu_table = ssurgo("", "valu")
      for state in region_states:
          state_table = None
          for table_name, key_field in [('muaggatt', 'mukey'), ('component', 'mukey'), ('chorizon', 'cokey')]:
              table = ssurgo(state, table_name)
              state_table = table if state_table is None else pd.merge(state_table, table, on=key_field, how='outer')
          state_table['state'] = state
          state_tables.append(state_table)
      soil_data = pd.concat(state_tables, axis=0)
      soil_data = soil_data.merge(valu_table, on='mukey')
      return soil_data.rename(columns=fields.convert)

  def ssurgo(state, name):
      table_fields, data_types = fields.fetch(name, dtypes=True, col='external_name')
      table_path = condensed_soil_path.format(state, name)
      return pd.read_csv(table_path, dtype=data_types, usecols=table_fields)
  \<close>
  \<open>ssurgo\<close> reads the object \<open>fields\<close> as \<open>fields.refresh()\<close> left it, so it takes that
  state as an argument. A merge without \<open>how\<close> is an inner join. Beside its outcome,
  \<open>soils\<close> returns the joins it made: for every call of \<open>merge\<close>, in the order of the
  calls, the key columns and the kind of the join.
\<close>

definition ssurgo :: "env \<Rightarrow> field_table \<Rightarrow> string \<Rightarrow> string \<Rightarrow> error + table" where
  "ssurgo E F state name =
     bindE (fetch_dtypes F name (Some ''external_name'')) (\<lambda>(table_fields, data_types).
     read_csv E (condensed_soil_path E [AStr state, AStr name])
       (usecols_dtype table_fields data_types) None)"

text \<open>
  A step of \<open>soils\<close> takes the joins made so far and returns them with its outcome:
  \<open>df_merge\<close> is a call of \<open>merge\<close>, which adds its join, \<open>no_join\<close> is any other step,
  and \<open>bindJ\<close> runs a step after another unless the first raises.
\<close>

type_synonym join = "string list \<times> how"

type_synonym 'a joining = "join list \<Rightarrow> join list \<times> (error + 'a)"

definition no_join :: "error + 'a \<Rightarrow> 'a joining" where
  "no_join m joins = (joins, m)"

definition df_merge :: "env \<Rightarrow> table \<Rightarrow> table \<Rightarrow> string list \<Rightarrow> how \<Rightarrow> table joining" where
  "df_merge E l r keys h joins = (joins @ [(keys, h)], pd_merge E l r keys h default_suffixes)"

definition bindJ :: "'a joining \<Rightarrow> ('a \<Rightarrow> 'b joining) \<Rightarrow> 'b joining" where
  "bindJ m f joins =
     (case m joins of
        (joins', Inl e) \<Rightarrow> (joins', Inl e)
      | (joins', Inr x) \<Rightarrow> f x joins')"

definition soil_tables :: "(string \<times> string) list" where
  "soil_tables = [(''muaggatt'', ''mukey''), (''component'', ''mukey''), (''chorizon'', ''cokey'')]"

fun state_table_loop ::
  "env \<Rightarrow> field_table \<Rightarrow> string \<Rightarrow> (string \<times> string) list \<Rightarrow> table option
     \<Rightarrow> table option joining" where
  "state_table_loop E F state [] state_table = no_join (Inr state_table)"
| "state_table_loop E F state ((table_name, key_field) # rest) state_table =
     bindJ (no_join (ssurgo E F state table_name)) (\<lambda>table.
     bindJ (case state_table of
              None \<Rightarrow> no_join (Inr table)
            | Some st \<Rightarrow> df_merge E st table [key_field] Outer) (\<lambda>st.
     state_table_loop E F state rest (Some st)))"

fun region_states_loop ::
  "env \<Rightarrow> field_table \<Rightarrow> string list \<Rightarrow> table list \<Rightarrow> table list joining" where
  "region_states_loop E F [] state_tables = no_join (Inr state_tables)"
| "region_states_loop E F (state # rest) state_tables =
     bindJ (state_table_loop E F state soil_tables None) (\<lambda>state_table.
     bindJ (no_join (case state_table of
              None \<Rightarrow> Inl (TypeError ''NoneType object does not support item assignment'')
            | Some st \<Rightarrow> Inr (setitem_scalar st ''state'' (Str state)))) (\<lambda>st.
     region_states_loop E F rest (state_tables @ [st])))"

text \<open>\<open>df.rename(columns=mapping)\<close>: a name the mapping does not hold is kept.\<close>

definition rename_columns :: "table \<Rightarrow> (string \<Rightarrow> string option) \<Rightarrow> table" where
  "rename_columns t m = map (\<lambda>(c, vs). (case m c of None \<Rightarrow> c | Some c' \<Rightarrow> c', vs)) t"

datatype soil_mode = Sam | Pwc | OtherMode string

definition soils ::
  "env \<Rightarrow> soil_mode \<Rightarrow> string option \<Rightarrow> string option \<Rightarrow> join list \<times> (error + table)" where
  "soils E mode region state =
     bindJ (no_join (refresh E (fields_now E))) (\<lambda>F.
     bindJ (no_join (case (region, state) of
              (None, Some s) \<Rightarrow> Inr [s]
            | _ \<Rightarrow>
                (case states_nhd E region of
                   None \<Rightarrow> Inl (KeyError (case region of None \<Rightarrow> ''None'' | Some r \<Rightarrow> r))
                 | Some sts \<Rightarrow> Inr sts))) (\<lambda>region_states.
     bindJ (no_join (ssurgo E F [] ''valu'')) (\<lambda>valu_table.
     bindJ (region_states_loop E F region_states []) (\<lambda>state_tables.
     bindJ (no_join (pd_concat state_tables)) (\<lambda>soil_data.
     bindJ (df_merge E soil_data valu_table [''mukey''] Inner) (\<lambda>soil_data.
     no_join (Inr (rename_columns soil_data (convert F))))))))) []"

text \<open>
  The claim's wording of the steps, to compare \<open>soils\<close> with.
  \<open>spec_soil_file E F st name\<close> is the file of the table \<open>name\<close> for the state \<open>st\<close>
  (the empty state for the shared table), read with the columns and types that \<open>fields\<close>
  gives for \<open>name\<close> under \<open>external_name\<close>. \<open>spec_outer_joined E F s\<close> is the three
  tables of the state \<open>s\<close> outer-joined: \<open>muaggatt\<close> with \<open>component\<close> on \<open>mukey\<close>, and
  the result with \<open>chorizon\<close> on \<open>cokey\<close>. \<open>spec_tagged t s\<close> is \<open>t\<close> with a column
  \<open>state\<close> that holds \<open>s\<close> in every row: in the place of a column of that name if \<open>t\<close>
  has one, else as a new last column. \<open>spec_renamed m t\<close> is \<open>t\<close> with every column
  under the name the mapping \<open>m\<close> gives for its name, or under its own name if \<open>m\<close>
  gives none; the cells and the order of the columns are those of \<open>t\<close>.
\<close>

definition spec_soil_file :: "env \<Rightarrow> field_table \<Rightarrow> string \<Rightarrow> string \<Rightarrow> error + table" where
  "spec_soil_file E F st name =
     (case fetch_dtypes F name (Some ''external_name'') of
        Inl e \<Rightarrow> Inl e
      | Inr (cols, types) \<Rightarrow>
          parse_csv E (condensed_soil_path E [AStr st, AStr name])
            \<lparr>usecols = Some cols, dtype = PerCol types, names = None, delimiter = None\<rparr>)"

definition spec_outer_joined :: "env \<Rightarrow> field_table \<Rightarrow> string \<Rightarrow> error + table" where
  "spec_outer_joined E F s =
     bindE (spec_soil_file E F s ''muaggatt'') (\<lambda>muaggatt.
     bindE (spec_soil_file E F s ''component'') (\<lambda>component.
     bindE (pd_merge E muaggatt component [''mukey''] Outer (''_x'', ''_y'')) (\<lambda>joined.
     bindE (spec_soil_file E F s ''chorizon'') (\<lambda>chorizon.
     pd_merge E joined chorizon [''cokey''] Outer (''_x'', ''_y'')))))"

definition spec_tagged :: "table \<Rightarrow> string \<Rightarrow> table" where
  "spec_tagged t s =
     (if ''state'' \<in> set (columns t)
      then map (\<lambda>(c, vs). (c, if c = ''state'' then replicate (nrows t) (Str s) else vs)) t
      else t @ [(''state'', replicate (nrows t) (Str s))])"

definition spec_renamed :: "(string \<Rightarrow> string option) \<Rightarrow> table \<Rightarrow> table" where
  "spec_renamed m t =
     zip (map (\<lambda>c. case m c of None \<Rightarrow> c | Some c' \<Rightarrow> c') (columns t)) (map snd t)"

text \<open>
  The joins of a call. \<open>outer_joins\<close> keeps the outer joins of a list of joins.
  \<open>state_joins\<close> are the joins \<open>soils\<close> makes for one state, \<open>claimed_state_joins\<close>
  the three outer joins of the claim: the first two on \<open>mukey\<close>, the third on \<open>cokey\<close>.
\<close>

definition outer_joins :: "join list \<Rightarrow> join list" where
  "outer_joins joins = filter (\<lambda>(keys, h). h = Outer) joins"

definition state_joins :: "join list" where
  "state_joins = [([''mukey''], Outer), ([''cokey''], Outer)]"

definition claimed_state_joins :: "join list" where
  "claimed_state_joins = [([''mukey''], Outer), ([''mukey''], Outer), ([''cokey''], Outer)]"

subsection \<open>\<open>pwc_outfile\<close>\<close>

text \<open>
  \<^verbatim>\<open>
  @test_path
  def pwc_outfile(region=None, class_num=None, class_name=None, koc=None, preprocessed=False, in_file=None):
      pwc_header = fields.fetch('pwc_id_fields') + pwc_durations
      if in_file is None:
          root = reconstituted_path if preprocessed else pwc_scenario_path
          in_file = root.format(region, class_num, class_name, koc)
      if not preprocessed:
          table = pd.read_csv(in_file, names=pwc_header, delimiter=r'\s+')
          table['line_num'] = table.line_num.astype(np.int32) - 1
          data = table.pop('run_id').str.split('_', expand=True)
          print(data.head())
          print(['bunk'] + fields.fetch('pwc_run_id'))
          data.columns = ['bunk'] + fields.fetch('pwc_run_id')
          table = pd.concat([data, table], axis=1)
          table = table.melt(id_vars=[f for f in table.columns if not f in pwc_durations],
                             value_vars=pwc_durations, var_name='duration', value_name='conc')
      else:
          table = pd.read_csv(in_file)
      return table
  \<close>
  What the two \<open>print\<close> calls write is not modelled; the second one's call of
  \<open>fields.fetch\<close> is, since it may raise.
\<close>

record outfile_args =
  arg_region :: arg
  arg_class_num :: arg
  arg_class_name :: arg
  arg_koc :: arg
  arg_preprocessed :: bool
  arg_in_file :: "string option"

text \<open>
  \<open>Series.astype(np.int32)\<close> on one cell. An integer of another width is cut or
  extended to 32 bits, a float is truncated towards zero (NumPy leaves a float outside
  the 32-bit range undefined; the model wraps it), a text goes through Python's \<open>int\<close>,
  a missing value raises.
\<close>

definition astype_int32 :: "env \<Rightarrow> cell \<Rightarrow> error + cell" where
  "astype_int32 E v =
     (case v of
        NaN \<Rightarrow> Inl (ValueError ''Cannot convert non-finite values (NA or inf) to integer'')
      | Str s \<Rightarrow>
          (case py_int E s of
             None \<Rightarrow> Inl (ValueError ''invalid literal for int() with base 10'')
           | Some i \<Rightarrow>
               (if - (2 ^ 31) \<le> i \<and> i < 2 ^ 31 then Inr (I32 (word_of_int i))
                else Inl (OverflowError ''Python int too large to convert to C long'')))
      | Bool b \<Rightarrow> Inr (I32 (if b then 1 else 0))
      | I64 w \<Rightarrow> Inr (I32 (ucast w))
      | F64 r \<Rightarrow> Inr (I32 (word_of_int (if 0 \<le> r then \<lfloor>r\<rfloor> else \<lceil>r\<rceil>)))
      | U32 w \<Rightarrow> Inr (I32 w)
      | I32 w \<Rightarrow> Inr (I32 w)
      | I16 w \<Rightarrow> Inr (I32 (scast w)))"

text \<open>\<open>series - 1\<close> on one cell of an \<open>int32\<close> column.\<close>

definition minus_1 :: "cell \<Rightarrow> cell" where
  "minus_1 v = (case v of I32 w \<Rightarrow> I32 (w - 1) | _ \<Rightarrow> v)"

text \<open>\<open>s.split(sep)\<close> with an explicit separator: the empty text gives one empty part.\<close>

fun split_on :: "char \<Rightarrow> string \<Rightarrow> string list" where
  "split_on sep [] = [[]]"
| "split_on sep (c # cs) =
     (if c = sep then [] # split_on sep cs
      else (case split_on sep cs of [] \<Rightarrow> [[c]] | p # ps \<Rightarrow> (c # p) # ps))"

text \<open>
  \<open>series.str.split(sep, expand=True)\<close>: the columns of the parts, as many as the
  longest split has, shorter splits padded with missing values. The accessor \<open>.str\<close>
  raises \<open>AttributeError\<close> on a column that is not of texts; a column with rows is one
  of texts when it holds a text, and in it a cell that is no text splits into missing
  values.
\<close>

definition split_cell :: "char \<Rightarrow> cell \<Rightarrow> string list option" where
  "split_cell sep v = (case v of Str s \<Rightarrow> Some (split_on sep s) | _ \<Rightarrow> None)"

definition part :: "nat \<Rightarrow> string list option \<Rightarrow> cell" where
  "part j p =
     (case p of None \<Rightarrow> NaN | Some ps \<Rightarrow> (if j < length ps then Str (ps ! j) else NaN))"

definition str_split_expand :: "cell list \<Rightarrow> char \<Rightarrow> error + cell list list" where
  "str_split_expand vs sep =
     (if vs \<noteq> [] \<and> \<not> list_ex is_str vs
      then Inl (AttributeError ''Can only use .str accessor with string values'')
      else
        (let parts = map (split_cell sep) vs;
             k = foldr max (map (\<lambda>p. case p of None \<Rightarrow> 0 | Some ps \<Rightarrow> length ps) parts) 0
         in Inr (map (\<lambda>j. map (part j) parts) [0..<k])))"

text \<open>\<open>data.columns = new_names\<close>: a \<open>ValueError\<close> unless every column gets one name.\<close>

definition set_columns :: "cell list list \<Rightarrow> string list \<Rightarrow> error + table" where
  "set_columns cols new_names =
     (if length new_names = length cols then Inr (zip new_names cols)
      else Inl (ValueError ''Length mismatch''))"

text \<open>\<open>pd.concat([a, b], axis=1)\<close> of two tables over the same rows.\<close>

definition concat_axis1 :: "table \<Rightarrow> table \<Rightarrow> table" where
  "concat_axis1 a b = a @ b"

text \<open>
  \<open>df.melt(id_vars, value_vars, var_name, value_name)\<close>: for each value column in
  turn, all rows of the table: the identifier columns, the value column's name under
  \<open>var_name\<close> and its cell under \<open>value_name\<close>.
\<close>

definition melt :: "table \<Rightarrow> string list \<Rightarrow> string list \<Rightarrow> string \<Rightarrow> string \<Rightarrow> error + table" where
  "melt t id_vars value_vars var_name value_name =
     bindE (select_cols t id_vars) (\<lambda>ids.
     bindE (select_cols t value_vars) (\<lambda>vals.
     Inr (map (\<lambda>(c, vs). (c, concat (replicate (length value_vars) vs))) ids
          @ [(var_name, concat (map (\<lambda>v. replicate (nrows t) (Str v)) value_vars)),
             (value_name, concat (map snd vals))])))"

text \<open>The regular expression \<^verbatim>\<open>\s+\<close>, the delimiter of a PWC output file.\<close>

definition whitespace :: string where
  "whitespace = [CHR 0x5C, CHR ''s'', CHR ''+'']"

definition outfile_path :: "env \<Rightarrow> outfile_args \<Rightarrow> string" where
  "outfile_path E a =
     (case arg_in_file a of
        None \<Rightarrow>
          (if arg_preprocessed a then reconstituted_path E else pwc_scenario_path E)
            [arg_region a, arg_class_num a, arg_class_name a, arg_koc a]
      | Some in_file \<Rightarrow> in_file)"

definition pwc_outfile_body :: "env \<Rightarrow> outfile_args \<Rightarrow> error + table" where
  "pwc_outfile_body E a =
     bindE (fetch (fields_now E) ''pwc_id_fields'') (\<lambda>id_fields.
     let pwc_header = id_fields @ pwc_durations E;
         in_file = outfile_path E a
     in if \<not> arg_preprocessed a then
          bindE (read_csv E in_file
                   (default_opts\<lparr>names := Some pwc_header, delimiter := Some whitespace\<rparr>) None) (\<lambda>table.
          bindE (getattr table ''line_num'') (\<lambda>line_num.
          bindE (mapE (astype_int32 E) line_num) (\<lambda>line_num.
          let table = setitem table ''line_num'' (map minus_1 line_num) in
          bindE (pop table ''run_id'') (\<lambda>(run_id, table).
          bindE (str_split_expand run_id CHR ''_'') (\<lambda>data.
          bindE (fetch (fields_now E) ''pwc_run_id'') (\<lambda>printed.
          bindE (fetch (fields_now E) ''pwc_run_id'') (\<lambda>run_id_fields.
          bindE (set_columns data (''bunk'' # run_id_fields)) (\<lambda>data.
          let table = concat_axis1 data table in
          melt table (filter (\<lambda>f. f \<notin> set (pwc_durations E)) (columns table))
            (pwc_durations E) ''duration'' ''conc''))))))))
        else read_csv E in_file default_opts None)"

definition pwc_outfile :: "env \<Rightarrow> outfile_args \<Rightarrow> error + table" where
  "pwc_outfile E = test_path (pwc_outfile_body E)"

text \<open>
  The claim's wording of the result, to compare \<open>pwc_outfile\<close> with. \<open>nth_part j v\<close> is
  part \<open>j\<close> of the run id \<open>v\<close> split at \<open>_\<close>, \<open>line_minus_1 v\<close> the line number
  \<open>v\<close> as a 32-bit integer less one. \<open>spec_wide t run_id_fields\<close> is the table \<open>t\<close>
  with \<open>run_id\<close> taken out, the run id's parts in front of it as the columns \<open>bunk\<close> and
  \<open>run_id_fields\<close>, and \<open>line_num\<close> decremented. \<open>spec_long wide durations\<close> is its
  long form: for each duration in turn all rows of \<open>wide\<close>, with the columns that are no
  duration repeated, the duration's name under \<open>duration\<close> and its value under \<open>conc\<close>.
\<close>

definition nth_part :: "nat \<Rightarrow> cell \<Rightarrow> cell" where
  "nth_part j v = (case v of Str s \<Rightarrow> Str (split_on CHR ''_'' s ! j) | _ \<Rightarrow> NaN)"

definition line_minus_1 :: "cell \<Rightarrow> cell" where
  "line_minus_1 v = (case v of I64 w \<Rightarrow> I32 (ucast w - 1) | _ \<Rightarrow> v)"

definition spec_wide :: "table \<Rightarrow> string list \<Rightarrow> table" where
  "spec_wide t run_id_fields =
     zip (''bunk'' # run_id_fields)
       (map (\<lambda>j. map (nth_part j) (col_or_nan t ''run_id'')) [0..<Suc (length run_id_fields)])
     @ map (\<lambda>(c, vs). (c, if c = ''line_num'' then map line_minus_1 vs else vs))
         (filter (\<lambda>(c, vs). c \<noteq> ''run_id'') t)"

definition spec_long :: "table \<Rightarrow> string list \<Rightarrow> table" where
  "spec_long wide durations =
     map (\<lambda>(c, vs). (c, concat (replicate (length durations) vs)))
       (filter (\<lambda>(c, vs). c \<notin> set durations) wide)
     @ [(''duration'', concat (map (\<lambda>d. replicate (nrows wide) (Str d)) durations)),
        (''conc'', concat (map (\<lambda>d. col_or_nan wide d) durations))]"

text \<open>
  What \<open>read_csv\<close> makes of a PWC output file of this pipeline, given the header
  \<open>id_fields @ durations\<close>: a table with these columns, all of one length, and at least
  one row; the names \<open>bunk\<close>, \<open>run_id_fields\<close>, \<open>id_fields\<close> and \<open>durations\<close> are
  distinct; \<open>line_num\<close> and \<open>run_id\<close> are id fields; the line numbers are integers; and
  every run id is a text of one part for \<open>bunk\<close> and one for each run-id field.
\<close>

definition is_i64 :: "cell \<Rightarrow> bool" where
  "is_i64 v = (case v of I64 w \<Rightarrow> True | _ \<Rightarrow> False)"

definition run_id_cell :: "nat \<Rightarrow> cell \<Rightarrow> bool" where
  "run_id_cell k v =
     (case v of Str s \<Rightarrow> length (split_on CHR ''_'' s) = Suc k | _ \<Rightarrow> False)"

definition pwc_file :: "string list \<Rightarrow> string list \<Rightarrow> string list \<Rightarrow> table \<Rightarrow> bool" where
  "pwc_file id_fields run_id_fields durations t =
     (columns t = id_fields @ durations
      \<and> wf_table t \<and> 0 < nrows t
      \<and> distinct (''bunk'' # run_id_fields @ id_fields @ durations)
      \<and> ''line_num'' \<in> set id_fields \<and> ''run_id'' \<in> set id_fields
      \<and> list_all is_i64 (col_or_nan t ''line_num'')
      \<and> list_all (run_id_cell (length run_id_fields)) (col_or_nan t ''run_id''))"

subsection \<open>Sample environments\<close>

text \<open>
  Concrete environments, on which the theorems below are run. \<open>sample_env\<close> has no
  file at all; each of the others puts files into it.
\<close>

definition sample_fields :: field_table where
  "sample_fields =
     \<lparr>fetch = (\<lambda>name. if name = ''date'' then Inr [''plant_begin'', ''harvest_begin'']
                       else Inl (KeyError name)),
      fetch_dtypes = (\<lambda>name col. Inr ([''cdl'', ''cdl_alias''], [])),
      convert = (\<lambda>c. None)\<rparr>"

definition sample_env :: env where
  "sample_env =
     \<lparr>parse_csv = (\<lambda>path opts. Inl (FileNotFoundError path)),
      pd_merge = (\<lambda>l r keys h suffixes. Inr (l @ r)),
      fields_now = sample_fields,
      refresh = Inr,
      py_int = (\<lambda>s. None),
      states_nhd = (\<lambda>r. None),
      pwc_durations = [],
      combo_path = (\<lambda>args. ''combos.csv''),
      condensed_soil_path = (\<lambda>args. ''soil.csv''),
      pwc_scenario_path = (\<lambda>args. ''pwc.txt''),
      reconstituted_path = (\<lambda>args. ''reconstituted.csv''),
      crop_group_path = ''crop_groups.csv'',
      crop_params_path = ''crop_params.csv'',
      crop_dates_path = ''crop_dates.csv'',
      irrigation_path = ''irrigation.csv'',
      gen_params_path = ''curve_numbers.csv'',
      gdd_input_path = ''gdd.csv''\<rparr>"

text \<open>
  Every parameter file is present; the crop-dates file has one crop, planted on the
  first of May and harvested in mid October.
\<close>

definition crop_files :: "string \<Rightarrow> read_opts \<Rightarrow> error + table" where
  "crop_files path opts =
     (if path = ''crop_dates.csv''
      then Inr [(''cdl'', [I64 1]), (''cdl_alias'', [I64 1]),
                (''plant_begin'', [Str ''01-May'']), (''harvest_begin'', [Str ''15-Oct''])]
      else Inr [(''cdl'', [I64 1]), (''cdl_alias'', [I64 1])])"

definition crop_env :: env where
  "crop_env = sample_env\<lparr>parse_csv := crop_files\<rparr>"





text \<open>
  Two growing-degree-day files. In the first the second row lacks \<open>emergence_gdd\<close> and
  the third lacks the maximum-cover base temperature. The second has a column
  \<open>emergence_base_temp\<close> beside \<open>emergence_base_temp_f\<close>.
\<close>

definition gdd_table :: table where
  "gdd_table =
     [(''crop'', [Str ''corn'', Str ''wheat'', Str ''oats'']),
      (''emergence_gdd'', [F64 100, NaN, F64 80]),
      (''maxcover_gdd'', [F64 900, F64 800, F64 700]),
      (''emergence_base_temp_f'', [F64 50, F64 41, F64 32]),
      (''maxcover_base_temp_f'', [F64 50, F64 41, NaN])]"

definition gdd_env :: env where
  "gdd_env = sample_env\<lparr>parse_csv := (\<lambda>path opts. Inr gdd_table)\<rparr>"

definition clash_table :: table where
  "clash_table =
     [(''emergence_gdd'', [F64 100]),
      (''maxcover_gdd'', [F64 900]),
      (''emergence_base_temp'', [F64 7]),
      (''emergence_base_temp_f'', [F64 50]),
      (''maxcover_base_temp_f'', [F64 41])]"

definition clash_env :: env where
  "clash_env = sample_env\<lparr>parse_csv := (\<lambda>path opts. Inr clash_table)\<rparr>"

text \<open>
  A PWC output file of two runs with two durations, the field names as \<open>fields\<close> gives
  them, and a call that names no file.
\<close>

definition pwc_table :: table where
  "pwc_table =
     [(''line_num'', [I64 2, I64 3]),
      (''run_id'', [Str ''x_07_24'', Str ''x_07_1'']),
      (''acute'', [F64 (3 / 2), F64 (1 / 4)]),
      (''chronic'', [F64 (1 / 2), NaN])]"

definition pwc_fields :: field_table where
  "pwc_fields =
     \<lparr>fetch = (\<lambda>name. if name = ''pwc_id_fields'' then Inr [''line_num'', ''run_id'']
                       else if name = ''pwc_run_id'' then Inr [''region'', ''cdl'']
                       else Inl (KeyError name)),
      fetch_dtypes = (\<lambda>name col. Inl (KeyError name)),
      convert = (\<lambda>c. None)\<rparr>"

definition pwc_env :: env where
  "pwc_env = sample_env\<lparr>parse_csv := (\<lambda>path opts. Inr pwc_table), fields_now := pwc_fields,
     pwc_durations := [''acute'', ''chronic'']\<rparr>"

definition pwc_args :: outfile_args where
  "pwc_args = \<lparr>arg_region = AStr ''07'', arg_class_num = AInt 24, arg_class_name = AStr ''wheat'',
     arg_koc = AInt 100, arg_preprocessed = False, arg_in_file = None\<rparr>"

text \<open>
  The soil files of one state, Iowa, and the shared \<open>valu\<close> file: two map units with
  one component and one horizon each. The files list the map units and the components in
  the same order, so that on them a join on the key sets the other columns of the right
  table beside the columns of the left one. \<open>fields.convert\<close> renames two of the
  columns, and \<open>states_nhd\<close> holds no region.
\<close>

definition soil_files :: "string \<Rightarrow> read_opts \<Rightarrow> error + table" where
  "soil_files path opts =
     (if path = ''_valu.csv''
      then Inr [(''mukey'', [I64 101, I64 102]), (''rootznaws'', [F64 150, F64 90])]
      else if path = ''IA_muaggatt.csv''
      then Inr [(''mukey'', [I64 101, I64 102]), (''hydgrpdcd'', [Str ''B'', Str ''C''])]
      else if path = ''IA_component.csv''
      then Inr [(''mukey'', [I64 101, I64 102]), (''cokey'', [I64 7, I64 8]),
                (''comppct_r'', [I64 85, I64 100])]
      else if path = ''IA_chorizon.csv''
      then Inr [(''cokey'', [I64 7, I64 8]), (''hzdepb_r'', [I64 30, I64 25])]
      else Inl (FileNotFoundError path))"

definition soil_name :: "arg list \<Rightarrow> string" where
  "soil_name args =
     (case args of
        [AStr st, AStr name] \<Rightarrow> st @ ''_'' @ name @ ''.csv''
      | _ \<Rightarrow> ''soil.csv'')"

definition soil_merge ::
  "table \<Rightarrow> table \<Rightarrow> string list \<Rightarrow> how \<Rightarrow> string \<times> string \<Rightarrow> error + table" where
  "soil_merge l r keys h suffixes = Inr (l @ filter (\<lambda>(c, vs). c \<notin> set keys) r)"

definition soil_columns :: "string \<Rightarrow> string list" where
  "soil_columns name =
     (if name = ''valu'' then [''mukey'', ''rootznaws'']
      else if name = ''muaggatt'' then [''mukey'', ''hydgrpdcd'']
      else if name = ''component'' then [''mukey'', ''cokey'', ''comppct_r'']
      else [''cokey'', ''hzdepb_r''])"

definition soil_fields :: field_table where
  "soil_fields =
     \<lparr>fetch = (\<lambda>name. Inl (KeyError name)),
      fetch_dtypes = (\<lambda>name col. if col = Some ''external_name''
                                  then Inr (soil_columns name, [])
                                  else Inl (KeyError name)),
      convert = (\<lambda>c. if c = ''mukey'' then Some ''soil_id''
                      else if c = ''hzdepb_r'' then Some ''horizon_bottom'' else None)\<rparr>"

definition soil_env :: env where
  "soil_env = sample_env\<lparr>parse_csv := soil_files, pd_merge := soil_merge,
     fields_now := soil_fields, condensed_soil_path := soil_name\<rparr>"

section \<open>Properties\<close>

subsection \<open>Sequencing of steps that may raise\<close>

lemma bindE_Inl [simp]: "bindE (Inl e) f = Inl e"
  by (simp add: bindE_def)

lemma bindE_Inr [simp]: "bindE (Inr x) f = f x"
  by (simp add: bindE_def)


lemma bindE_eq_Inr: "bindE m f = Inr y \<longleftrightarrow> (\<exists>x. m = Inr x \<and> f x = Inr y)"
  by (cases m) simp_all

subsection \<open>The claims that need no auxiliary facts\<close>

text \<open>
  C2. The decorator \<open>test_path\<close> is the identity on the decorated function: whatever the
  function and its arguments, the wrapped call returns what the function returns and
  raises the exception the function raises.
\<close>

theorem test_path_identity: "test_path f = f"
proof
  fix args
  show "test_path f args = f args"
  proof (cases "f args")
    case (Inl e)
    then show ?thesis by (cases "is_Exception e") (simp_all add: test_path_def)
  next
    case (Inr r)
    then show ?thesis by (simp add: test_path_def)
  qed
qed


text \<open>
  C8. With \<open>grapes=True\<close>, \<open>gdd\<close> raises \<open>FutureWarning\<close> as an exception: no path has
  been handed to \<open>read_csv\<close> and no table is returned.
\<close>

theorem gdd_grapes_raises:
  "gdd E True = ([], Inl (FutureWarning ''Haven't implemented grapes yet''))"
  by (simp add: gdd_def)

text \<open>
  C9. With an empty \<open>years\<close>, \<open>combinations\<close> returns \<open>None\<close> and no table: the loop body
  never runs, so no file is read.
\<close>

theorem combinations_no_years:
  "combinations E region [] nrows_arg = ([], Inr None)"
  by (simp add: combinations_def)

text \<open>
  C10. The result of \<open>soils\<close> does not depend on its \<open>mode\<close> argument: with the same
  environment (files, \<open>fields\<close>, \<open>states_nhd\<close>), region and state, any two modes give the
  same outcome, be it a table or an exception.
\<close>

theorem soils_mode_independent:
  "soils E mode region state = soils E mode' region state"
  unfolding soils_def by (rule refl)

subsection \<open>Tables\<close>

lemma map_of_None_columns: "map_of t c = None \<longleftrightarrow> c \<notin> set (columns t)"
  by (simp add: columns_def map_of_eq_None_iff)

lemma map_columns_id:
  "distinct (columns t) \<Longrightarrow> map (\<lambda>c. (c, col_or_nan t c)) (columns t) = t"
proof (induction t)
  case Nil
  then show ?case by (simp add: columns_def)
next
  case (Cons p t)
  obtain c vs where p: "p = (c, vs)" by (cases p)
  from Cons.prems have notin: "c \<notin> set (columns t)" and dist: "distinct (columns t)"
    by (simp_all add: p columns_def)
  have "map (\<lambda>k. (k, col_or_nan ((c, vs) # t) k)) (columns t)
      = map (\<lambda>k. (k, col_or_nan t k)) (columns t)"
    using notin
    by (intro map_cong) (auto simp: col_or_nan_def map_of_None_columns split: option.splits)
  with Cons.IH [OF dist] show ?case
    by (simp add: p columns_def col_or_nan_def)
qed

subsection \<open>\<open>crop\<close>: the date loop\<close>

lemma to_days_loop_raises:
  "to_days_loop (field # rest) t =
     Inl (if field \<in> set (columns t) then NameError ''date_fmt'' else KeyError field)"
  by (cases "map_of t field")
    (simp_all add: to_days_def getitem_def map_of_None_columns [symmetric])

text \<open>
  Whenever \<open>fields.fetch('date')\<close> names a date field, \<open>crop\<close> raises: it never reaches
  its \<open>return\<close>.
\<close>

lemma crop_with_dates_raises:
  assumes "refresh E (fields_now E) = Inr F" and "fetch F ''date'' = Inr (field # rest)"
  shows "\<exists>e. crop E region = Inl e"
proof (cases "crop E region")
  case (Inl e)
  then show ?thesis by blast
next
  case (Inr t)
  then show ?thesis
    using assms
    by (auto simp: crop_def bindE_eq_Inr to_days_loop_raises simp del: to_days_loop.simps
        split: prod.splits)
qed

text \<open>
  C3 (the code departs from the claim). The claim has \<open>crop\<close> convert each date field
  to a day offset and return the joined table. In the code the conversion names
  \<open>date_fmt\<close>, which the module never binds: with every parameter file present and the
  date fields \<open>plant_begin\<close> and \<open>harvest_begin\<close> in the crop-dates table, the call
  \<open>crop('07')\<close> raises \<open>NameError\<close> at the first date field and returns no table.
\<close>

theorem crop_date_fmt_NameError:
  "crop crop_env ''07'' = Inl (NameError ''date_fmt'')"
  by (simp add: crop_def crop_env_def sample_env_def sample_fields_def crop_files_def
      read_csv_def usecols_dtype_def default_opts_def to_days_def getitem_def)


subsection \<open>\<open>combinations\<close>: the loop\<close>

lemma select_cols_find:
  "select_cols t cols =
     (case find (\<lambda>c. c \<notin> set (columns t)) cols of
        Some c \<Rightarrow> Inl (KeyError c)
      | None \<Rightarrow> Inr (map (\<lambda>c. (c, col_or_nan t c)) cols))"
proof (induction cols)
  case Nil
  then show ?case by (simp add: select_cols_def)
next
  case (Cons c cols)
  show ?case
  proof (cases "map_of t c")
    case None
    then show ?thesis
      by (simp add: select_cols_def getitem_def map_of_None_columns [symmetric])
  next
    case (Some vs)
    then have "c \<in> set (columns t)"
      using map_of_None_columns [of t c] by simp
    with Some Cons show ?thesis
      by (simp add: select_cols_def getitem_def col_or_nan_def split: option.splits)
  qed
qed

lemma columns_head_rows [simp]: "columns (head_rows n t) = columns t"
  by (simp add: columns_def head_rows_def comp_def case_prod_beta)





lemma columns_spec_vstack [simp]: "columns (spec_vstack cols ts) = cols"
  by (simp add: columns_def spec_vstack_def comp_def)












subsection \<open>\<open>crop\<close>: the harvest loop\<close>

lemma mapE_Inr: "(\<And>x. x \<in> set xs \<Longrightarrow> f x = Inr (g x)) \<Longrightarrow> mapE f xs = Inr (map g xs)"
  by (induction xs) simp_all

text \<open>\<open>plus_365\<close> adds 365 to the number a day offset stands for.\<close>

lemma plus_365_num:
  "day_offset h \<Longrightarrow> cell_num (plus_365 h) = map_option (\<lambda>y. y + 365) (cell_num h)"
proof (cases h)
  case (I64 w)
  assume "day_offset h"
  with I64 have "sint w < 2 ^ 63 - 365" by simp
  moreover have "- (2 ^ 63) \<le> sint w" using sint_ge [of w] by simp
  ultimately have "sint (word_of_int (sint w + 365) :: 64 word) = sint w + 365"
    unfolding sint_sbintrunc' by (intro signed_take_bit_int_eq_self) simp_all
  with I64 show ?thesis by (simp add: plus_365_def)
qed (simp_all add: plus_365_def)




lemma harvest_col_inj [simp]: "harvest_col s = harvest_col s' \<longleftrightarrow> s = s'"
  by (simp add: harvest_col_def)

lemma plant_col_not_harvest [simp]: "plant_col s \<noteq> harvest_col s'"
  by (simp add: plant_col_def harvest_col_def)

lemma map_of_setitem: "map_of (setitem t c vs) = (map_of t)(c \<mapsto> vs)"
  by (simp add: setitem_def update_conv')







subsection \<open>\<open>gdd\<close>: the renaming loop and the dropped rows\<close>

lemma endswith_append: "endswith c suf \<longleftrightarrow> (\<exists>pre. c = pre @ suf)"
proof
  assume "endswith c suf"
  then have "c = take (length c - length suf) c @ suf"
    by (metis append_take_drop_id endswith_def)
  then show "\<exists>pre. c = pre @ suf" ..
next
  assume "\<exists>pre. c = pre @ suf"
  then show "endswith c suf" by (auto simp: endswith_def)
qed

lemma rstrip_temp_f:
  assumes "endswith c ''temp_f''"
  shows "rstrip c ''_f'' = strip_f c" and "c = strip_f c @ ''_f''"
proof -
  from assms obtain pre where c: "c = pre @ ''temp_f''"
    unfolding endswith_append by blast
  show "rstrip c ''_f'' = strip_f c"
    by (simp add: c rstrip_def strip_f_def butlast_append)
  show "c = strip_f c @ ''_f''"
    by (simp add: c strip_f_def butlast_append)
qed

lemma strip_f_inj:
  "endswith c ''temp_f'' \<Longrightarrow> endswith c' ''temp_f'' \<Longrightarrow> strip_f c = strip_f c' \<Longrightarrow> c = c'"
  using rstrip_temp_f(2) by metis

lemma f_to_c_celsius: "\<not> is_str v \<Longrightarrow> f_to_c v = Inr (celsius v)"
  by (cases v) (simp_all add: f_to_c_def celsius_def is_str_def)

lemma mapE_f_to_c: "no_text vs \<Longrightarrow> mapE f_to_c vs = Inr (map celsius vs)"
  unfolding no_text_def list_all_iff by (intro mapE_Inr) (simp add: f_to_c_celsius)

lemma setitem_fresh: "c \<notin> set (columns t) \<Longrightarrow> setitem t c vs = t @ [(c, vs)]"
  unfolding setitem_def columns_def by (induction t) auto

lemma delete_absent: "c \<notin> set (columns t) \<Longrightarrow> AList.delete c t = t"
  by (simp add: columns_def)

lemma columns_append [simp]: "columns (a @ b) = columns a @ columns b"
  by (simp add: columns_def)

lemma columns_Cons [simp]: "columns ((c, vs) # t) = c # columns t"
  by (simp add: columns_def)

lemma columns_Nil [simp]: "columns [] = []"
  by (simp add: columns_def)

lemma map_of_append_absent: "c \<notin> set (columns P) \<Longrightarrow> map_of (P @ Q) c = map_of Q c"
  by (simp add: map_add_def map_of_None_columns [symmetric])

lemma delete_middle:
  "c \<notin> set (columns P) \<Longrightarrow> c \<notin> set (columns Q) \<Longrightarrow> AList.delete c (P @ (c, vs) # Q) = P @ Q"
  by (induction P) (auto simp: delete_absent)

lemma gdd_loop_spec:
  assumes "distinct (columns (P @ R @ C))"
    and "\<forall>(c, vs)\<in>set R. endswith c ''temp_f'' \<longrightarrow>
           no_text vs \<and> strip_f c \<notin> set (columns (P @ R @ C))"
  shows "gdd_loop (columns R) (P @ R @ C) =
     Inr (P @ filter (\<lambda>(c, vs). \<not> endswith c ''temp_f'') R @ C
          @ map (\<lambda>(c, vs). (strip_f c, map celsius vs))
              (filter (\<lambda>(c, vs). endswith c ''temp_f'') R))"
  using assms
proof (induction R arbitrary: P C)
  case Nil
  then show ?case by simp
next
  case (Cons p R)
  obtain c vs where p: "p = (c, vs)" by (cases p)
  from Cons.prems(1) have cP: "c \<notin> set (columns P)" and cR: "c \<notin> set (columns R)"
    and cC: "c \<notin> set (columns C)" and dist: "distinct (columns (P @ R @ C))"
    by (auto simp: p)
  show ?case
  proof (cases "endswith c ''temp_f''")
    case False
    have "gdd_loop (columns (p # R)) (P @ (p # R) @ C) = gdd_loop (columns R) ((P @ [p]) @ R @ C)"
      using False by (simp add: p)
    also have "\<dots> = Inr ((P @ [p]) @ filter (\<lambda>(c, vs). \<not> endswith c ''temp_f'') R @ C
          @ map (\<lambda>(c, vs). (strip_f c, map celsius vs))
              (filter (\<lambda>(c, vs). endswith c ''temp_f'') R))"
    proof (rule Cons.IH)
      show "distinct (columns ((P @ [p]) @ R @ C))"
        using Cons.prems(1) by (simp add: p)
      show "\<forall>(c, vs)\<in>set R. endswith c ''temp_f'' \<longrightarrow>
           no_text vs \<and> strip_f c \<notin> set (columns ((P @ [p]) @ R @ C))"
        using Cons.prems(2) by (auto simp: p)
    qed
    finally show ?thesis using False by (simp add: p)
  next
    case True
    with Cons.prems(2) have nt: "no_text vs"
      and fresh: "strip_f c \<notin> set (columns (P @ R @ C))"
      by (auto simp: p)
    have get: "getitem (P @ (c, vs) # R @ C) c = Inr vs"
      using map_of_append_absent [OF cP, of "(c, vs) # R @ C"]
      by (simp add: getitem_def del: map_of_append)
    have del: "AList.delete c (P @ (c, vs) # R @ C) = P @ R @ C"
      using cP cR cC by (intro delete_middle) simp_all
    have set: "setitem (P @ R @ C) (rstrip c ''_f'') (map celsius vs)
        = P @ R @ (C @ [(strip_f c, map celsius vs)])"
      using fresh by (simp add: rstrip_temp_f(1) [OF True] setitem_fresh)
    have "gdd_loop (columns (p # R)) (P @ (p # R) @ C)
        = gdd_loop (columns R) (P @ R @ (C @ [(strip_f c, map celsius vs)]))"
      using True by (simp add: p pop_def get del mapE_f_to_c [OF nt] set)
    also have "\<dots> = Inr (P @ filter (\<lambda>(c, vs). \<not> endswith c ''temp_f'') R
          @ (C @ [(strip_f c, map celsius vs)])
          @ map (\<lambda>(c, vs). (strip_f c, map celsius vs))
              (filter (\<lambda>(c, vs). endswith c ''temp_f'') R))"
    proof (rule Cons.IH)
      show "distinct (columns (P @ R @ C @ [(strip_f c, map celsius vs)]))"
        using dist fresh by simp
      show "\<forall>(c', vs')\<in>set R. endswith c' ''temp_f'' \<longrightarrow>
           no_text vs' \<and> strip_f c' \<notin> set (columns (P @ R @ C @ [(strip_f c, map celsius vs)]))"
      proof (intro ballI, clarify)
        fix c' vs' assume in_R: "(c', vs') \<in> set R" and temp: "endswith c' ''temp_f''"
        from in_R have "c' \<in> set (columns R)" by (force simp: columns_def)
        with cR have "c' \<noteq> c" by auto
        with temp True have "strip_f c' \<noteq> strip_f c" using strip_f_inj by blast
        moreover from Cons.prems(2) in_R temp
        have "no_text vs'" and "strip_f c' \<notin> set (columns (P @ R @ C))"
          by (auto simp: p)
        ultimately show "no_text vs' \<and>
            strip_f c' \<notin> set (columns (P @ R @ C @ [(strip_f c, map celsius vs)]))"
          by simp
      qed
    qed
    finally show ?thesis using True by (simp add: p)
  qed
qed

lemma gdd_loop_columns:
  assumes "distinct (columns t)"
    and "list_all (\<lambda>(c, vs). endswith c ''temp_f'' \<longrightarrow>
            no_text vs \<and> strip_f c \<notin> set (columns t)) t"
  shows "gdd_loop (columns t) t = Inr (spec_gdd_columns t)"
  using gdd_loop_spec [of "[]" t "[]"] assms
  by (simp add: spec_gdd_columns_def list_all_iff)

lemma dropna_complete:
  assumes "list_all (\<lambda>c. c \<in> set (columns t)) cols"
  shows "dropna t cols =
     Inr (filter_rows (map (\<lambda>i. list_all (\<lambda>c. col_or_nan t c ! i \<noteq> NaN) cols) [0..<nrows t]) t)"
proof -
  have "find (\<lambda>c. c \<notin> set (columns t)) cols = None"
    using assms by (simp add: find_None_iff list_all_iff)
  then show ?thesis
    by (simp add: dropna_def select_cols_find notna_mask_def list_all_iff)
qed

text \<open>
  C6 (as amended). For every input table with distinct column names, whose \<open>temp_f\<close>
  columns hold no text, in which no column already carries the stripped name of a
  \<open>temp_f\<close> column, and which has the four columns \<open>emergence_gdd\<close>,
  \<open>maxcover_gdd\<close>, \<open>emergence_base_temp\<close> and \<open>maxcover_base_temp\<close> once the
  \<open>temp_f\<close> columns are renamed: \<open>gdd\<close> with \<open>grapes=False\<close> reads the one file,
  replaces every column whose name ends in \<open>temp_f\<close> by a column named without the
  trailing \<open>_f\<close> that holds \<open>(v - 32) * 5/9\<close> of the original values (placed after the
  other columns), then drops exactly the rows with a missing value in at least one of the
  four columns; all other columns and rows are returned unchanged.
\<close>

theorem gdd_converts_and_drops:
  assumes "parse_csv E (gdd_input_path E) default_opts = Inr t" and "gdd_input t"
  shows "gdd E False = ([gdd_input_path E], Inr (spec_gdd t))"
proof -
  from assms(2) have loop: "gdd_loop (columns t) t = Inr (spec_gdd_columns t)"
    unfolding gdd_input_def by (intro gdd_loop_columns) simp_all
  from assms(2) have "dropna (spec_gdd_columns t) gdd_subset = Inr (spec_gdd t)"
    unfolding gdd_input_def spec_gdd_def Let_def complete_row_def
    by (simp add: dropna_complete)
  with loop assms(1) show ?thesis
    by (simp add: gdd_def read_csv_def)
qed

subsection \<open>\<open>gdd\<close> on the sample files\<close>

lemma upt3: "[0..<3] = [0, 1, 2]"
  by code_simp

lemma upt1: "[0..<1] = [0]"
  by simp

lemma spec_gdd_columns_gdd_table:
  "spec_gdd_columns gdd_table =
     [(''crop'', [Str ''corn'', Str ''wheat'', Str ''oats'']),
      (''emergence_gdd'', [F64 100, NaN, F64 80]),
      (''maxcover_gdd'', [F64 900, F64 800, F64 700]),
      (''emergence_base_temp'', [F64 10, F64 5, F64 0]),
      (''maxcover_base_temp'', [F64 10, F64 5, NaN])]"
  by (simp add: spec_gdd_columns_def gdd_table_def endswith_def strip_f_def celsius_def)

lemma gdd_input_gdd_table: "gdd_input gdd_table"
    unfolding gdd_input_def spec_gdd_columns_gdd_table
    by (simp add: gdd_table_def gdd_subset_def endswith_def strip_f_def no_text_def is_str_def)

lemma spec_gdd_gdd_table: "spec_gdd gdd_table =
      [(''crop'', [Str ''corn'']), (''emergence_gdd'', [F64 100]),
       (''maxcover_gdd'', [F64 900]), (''emergence_base_temp'', [F64 10]),
       (''maxcover_base_temp'', [F64 10])]"
    unfolding spec_gdd_def spec_gdd_columns_gdd_table
    by (simp add: complete_row_def gdd_subset_def col_or_nan_def nrows_def filter_rows_def
        filter_mask_def upt3)

text \<open>The theorem on the first sample file: only the first row is complete.\<close>

theorem gdd_converts_and_drops_witness:
  "parse_csv gdd_env (gdd_input_path gdd_env) default_opts = Inr gdd_table
   \<and> gdd_input gdd_table
   \<and> gdd gdd_env False =
       ([''gdd.csv''],
        Inr [(''crop'', [Str ''corn'']), (''emergence_gdd'', [F64 100]),
             (''maxcover_gdd'', [F64 900]), (''emergence_base_temp'', [F64 10]),
             (''maxcover_base_temp'', [F64 10])])"
proof -
  have parse: "parse_csv gdd_env (gdd_input_path gdd_env) default_opts = Inr gdd_table"
    by (simp add: gdd_env_def)
  have path: "gdd_input_path gdd_env = ''gdd.csv''"
    by (simp add: gdd_env_def sample_env_def)
  from gdd_converts_and_drops [OF parse gdd_input_gdd_table] parse gdd_input_gdd_table show ?thesis
    by (simp add: path spec_gdd_gdd_table)
qed

lemma gdd_loop_clash:
  "gdd_loop (columns clash_table) clash_table =
     Inr [(''emergence_gdd'', [F64 100]), (''maxcover_gdd'', [F64 900]),
          (''emergence_base_temp'', [F64 10]), (''maxcover_base_temp'', [F64 5])]"
  by (simp add: clash_table_def endswith_def pop_def getitem_def f_to_c_def rstrip_def
      setitem_def)

text \<open>
  C6 as the claim states it fails: the claim has every column other than the \<open>temp_f\<close>
  columns returned unchanged. On the second sample file the column
  \<open>emergence_base_temp\<close>, whose name does not end in \<open>temp_f\<close>, holds 7 in the input
  and 10 (the conversion of 50 in \<open>emergence_base_temp_f\<close>) in the result: the
  assignment \<open>table[col.rstrip('_f')] = ...\<close> overwrites the column of that name.
\<close>

theorem gdd_overwrites_column:
  "parse_csv clash_env (gdd_input_path clash_env) default_opts =
     Inr [(''emergence_gdd'', [F64 100]), (''maxcover_gdd'', [F64 900]),
          (''emergence_base_temp'', [F64 7]), (''emergence_base_temp_f'', [F64 50]),
          (''maxcover_base_temp_f'', [F64 41])]
   \<and> \<not> endswith ''emergence_base_temp'' ''temp_f''
   \<and> snd (gdd clash_env False) =
     Inr [(''emergence_gdd'', [F64 100]), (''maxcover_gdd'', [F64 900]),
          (''emergence_base_temp'', [F64 10]), (''maxcover_base_temp'', [F64 5])]"
proof -
  have parse: "parse_csv clash_env (gdd_input_path clash_env) default_opts = Inr clash_table"
    by (simp add: clash_env_def)
  have drop: "dropna [(''emergence_gdd'', [F64 100]), (''maxcover_gdd'', [F64 900]),
          (''emergence_base_temp'', [F64 10]), (''maxcover_base_temp'', [F64 5])] gdd_subset
      = Inr [(''emergence_gdd'', [F64 100]), (''maxcover_gdd'', [F64 900]),
          (''emergence_base_temp'', [F64 10]), (''maxcover_base_temp'', [F64 5])]"
    by (simp add: dropna_def select_cols_def getitem_def gdd_subset_def notna_mask_def
        nrows_def filter_rows_def filter_mask_def)
  have "snd (gdd clash_env False) =
     Inr [(''emergence_gdd'', [F64 100]), (''maxcover_gdd'', [F64 900]),
          (''emergence_base_temp'', [F64 10]), (''maxcover_base_temp'', [F64 5])]"
    by (simp add: gdd_def read_csv_def parse gdd_loop_clash drop)
  moreover have "\<not> endswith ''emergence_base_temp'' ''temp_f''"
    by (simp add: endswith_def)
  ultimately show ?thesis
    using parse by (simp add: clash_table_def)
qed


subsection \<open>\<open>pwc_outfile\<close>: the reshaping\<close>

lemma test_path_Inr: "f x = Inr r \<Longrightarrow> test_path f x = Inr r"
  by (simp add: test_path_def)

lemma map_if_absent:
  "k \<notin> set (columns t) \<Longrightarrow> map (\<lambda>(c, x). (c, if c = k then v else x)) t = t"
  unfolding columns_def by (induction t) auto

lemma setitem_present:
  "distinct (columns t) \<Longrightarrow> k \<in> set (columns t) \<Longrightarrow>
     setitem t k v = map (\<lambda>(c, x). (c, if c = k then v else x)) t"
proof (induction t)
  case Nil
  then show ?case by simp
next
  case (Cons p t)
  obtain c x where p: "p = (c, x)" by (cases p)
  show ?case
  proof (cases "c = k")
    case True
    with Cons.prems have "k \<notin> set (columns t)" by (simp add: p)
    then show ?thesis
      using True by (simp add: p setitem_def map_if_absent)
  next
    case False
    with Cons show ?thesis by (simp add: p setitem_def)
  qed
qed

lemma delete_filter: "AList.delete k t = filter (\<lambda>(c, vs). c \<noteq> k) t"
  by (auto simp: AList.delete_eq intro: filter_cong)

lemma select_cols_filter:
  assumes "distinct (columns t)"
  shows "select_cols t (filter P (columns t)) = Inr (filter (\<lambda>(c, vs). P c) t)"
proof -
  have "find (\<lambda>c. c \<notin> set (columns t)) (filter P (columns t)) = None"
    by (simp add: find_None_iff)
  moreover have "map (\<lambda>c. (c, col_or_nan t c)) (filter P (columns t))
      = filter (\<lambda>(c, vs). P c) (map (\<lambda>c. (c, col_or_nan t c)) (columns t))"
    by (simp add: filter_map comp_def)
  ultimately show ?thesis
    using assms by (simp add: select_cols_find map_columns_id)
qed

lemma select_cols_present:
  assumes "set cols \<subseteq> set (columns t)"
  shows "select_cols t cols = Inr (map (\<lambda>c. (c, col_or_nan t c)) cols)"
proof -
  have "find (\<lambda>c. c \<notin> set (columns t)) cols = None"
    using assms by (auto simp: find_None_iff)
  then show ?thesis by (simp add: select_cols_find)
qed

lemma melt_spec:
  assumes "distinct (columns wide)" and "set durations \<subseteq> set (columns wide)"
  shows "melt wide (filter (\<lambda>f. f \<notin> set durations) (columns wide)) durations
           ''duration'' ''conc'' = Inr (spec_long wide durations)"
proof -
  have ids: "select_cols wide (filter (\<lambda>f. f \<notin> set durations) (columns wide))
      = Inr (filter (\<lambda>(c, vs). c \<notin> set durations) wide)"
    using assms(1) by (rule select_cols_filter)
  have vals: "select_cols wide durations = Inr (map (\<lambda>c. (c, col_or_nan wide c)) durations)"
    using assms(2) by (rule select_cols_present)
  show ?thesis
    unfolding melt_def ids vals by (simp add: spec_long_def comp_def)
qed

lemma astype_int32_i64:
  "list_all is_i64 lnum \<Longrightarrow>
     mapE (astype_int32 E) lnum = Inr (map (\<lambda>v. case v of I64 w \<Rightarrow> I32 (ucast w) | _ \<Rightarrow> v) lnum)"
  unfolding list_all_iff
  by (intro mapE_Inr) (auto simp: astype_int32_def is_i64_def split: cell.splits)

lemma minus_1_i64:
  "list_all is_i64 lnum \<Longrightarrow>
     map minus_1 (map (\<lambda>v. case v of I64 w \<Rightarrow> I32 (ucast w) | _ \<Rightarrow> v) lnum) = map line_minus_1 lnum"
  unfolding list_all_iff
  by (auto simp: minus_1_def line_minus_1_def is_i64_def split: cell.splits)

lemma foldr_max_const:
  "xs \<noteq> [] \<Longrightarrow> (\<And>x. x \<in> set xs \<Longrightarrow> f x = n) \<Longrightarrow> foldr max (map f xs) (0::nat) = n"
proof (induction xs)
  case Nil
  then show ?case by simp
next
  case (Cons x xs)
  then show ?case by (cases xs) auto
qed

lemma split_expand_run_ids:
  assumes "rid \<noteq> []" and "list_all (run_id_cell k) rid"
  shows "str_split_expand rid CHR ''_'' = Inr (map (\<lambda>j. map (nth_part j) rid) [0..<Suc k])"
proof -
  from assms obtain v where "v \<in> set rid" by (cases rid) auto
  with assms(2) have str: "list_ex is_str rid"
    by (auto simp: list_all_iff list_ex_iff run_id_cell_def is_str_def split: cell.splits)
  have count: "foldr max (map (\<lambda>p. case p of None \<Rightarrow> 0 | Some ps \<Rightarrow> length ps)
      (map (split_cell CHR ''_'') rid)) 0 = Suc k"
    using assms
    by (intro foldr_max_const)
      (auto simp: list_all_iff run_id_cell_def split_cell_def split: cell.splits)
  have parts: "map (part j) (map (split_cell CHR ''_'') rid) = map (nth_part j) rid"
    if "j < Suc k" for j
    using assms(2) that
    by (auto simp: list_all_iff run_id_cell_def split_cell_def part_def nth_part_def
        split: cell.splits)
  have "map (\<lambda>j. map (part j) (map (split_cell CHR ''_'') rid)) [0..<Suc k]
      = map (\<lambda>j. map (nth_part j) rid) [0..<Suc k]"
    by (intro map_cong refl parts) auto
  with str count show ?thesis
    using assms(1) by (simp add: str_split_expand_def Let_def del: upt_Suc)
qed

lemma columns_map_keep:
  "columns (map (\<lambda>(c, vs). (c, f c vs)) t) = columns t"
  by (simp add: columns_def comp_def case_prod_beta)

lemma columns_filter_name:
  "columns (filter (\<lambda>(c, vs). P c) t) = filter P (columns t)"
  by (simp add: columns_def filter_map comp_def split_def)

lemma columns_zip: "length cs = length xs \<Longrightarrow> columns (zip cs xs) = cs"
  by (simp add: columns_def)

lemma wf_table_length:
  "wf_table t \<Longrightarrow> map_of t c = Some vs \<Longrightarrow> length vs = nrows t"
  by (auto simp: wf_table_def list_all_iff dest!: map_of_SomeD)

lemma length_concat_replicate: "length (concat (replicate n xs)) = n * length xs"
  by (induction n) simp_all

text \<open>
  C1. For a non-preprocessed PWC output file, \<open>pwc_outfile\<close> reads the file under the
  header it builds itself, \<open>fields.fetch('pwc_id_fields')\<close> followed by
  \<open>pwc_durations\<close>, and returns the table in long form: \<open>run_id\<close> is split at \<open>_\<close>
  into the columns \<open>bunk\<close> and \<open>fields.fetch('pwc_run_id')\<close>, \<open>line_num\<close> is decremented
  by 1, and the duration columns are replaced by the columns \<open>duration\<close> and \<open>conc\<close>,
  with one row for each pair of an input row and a duration: the number of input rows
  times the number of durations.
\<close>

theorem pwc_outfile_long_form:
  assumes np: "\<not> arg_preprocessed a"
    and ids: "fetch (fields_now E) ''pwc_id_fields'' = Inr id_fields"
    and rids: "fetch (fields_now E) ''pwc_run_id'' = Inr run_id_fields"
    and parse: "parse_csv E (outfile_path E a)
        (default_opts\<lparr>names := Some (id_fields @ pwc_durations E),
                       delimiter := Some whitespace\<rparr>) = Inr t"
    and wfile: "pwc_file id_fields run_id_fields (pwc_durations E) t"
  shows "pwc_outfile E a = Inr (spec_long (spec_wide t run_id_fields) (pwc_durations E))
     \<and> columns (spec_long (spec_wide t run_id_fields) (pwc_durations E)) =
         ''bunk'' # run_id_fields @ filter (\<lambda>c. c \<noteq> ''run_id'') id_fields @ [''duration'', ''conc'']
     \<and> nrows (spec_long (spec_wide t run_id_fields) (pwc_durations E)) =
         nrows t * length (pwc_durations E)"
proof -
  define durs where "durs = pwc_durations E"
  define g :: "string \<Rightarrow> cell list \<Rightarrow> cell list"
    where "g = (\<lambda>c vs. if c = ''line_num'' then map line_minus_1 vs else vs)"
  define D where "D = map (\<lambda>j. map (nth_part j) (col_or_nan t ''run_id'')) [0..<Suc (length run_id_fields)]"
  define wide where "wide = spec_wide t run_id_fields"
  from wfile have cols: "columns t = id_fields @ durs" and wf: "wf_table t"
    and pos: "0 < nrows t"
    and dist: "distinct (''bunk'' # run_id_fields @ id_fields @ durs)"
    and ln_in: "''line_num'' \<in> set id_fields" and rid_in: "''run_id'' \<in> set id_fields"
    and i64: "list_all is_i64 (col_or_nan t ''line_num'')"
    and cells: "list_all (run_id_cell (length run_id_fields)) (col_or_nan t ''run_id'')"
    unfolding pwc_file_def durs_def by simp_all
  from dist have dt: "distinct (columns t)" by (simp add: cols)
  from ln_in obtain lnum where lnum: "map_of t ''line_num'' = Some lnum"
    using map_of_None_columns [of t "''line_num''"] by (cases "map_of t ''line_num''") (auto simp: cols)
  from rid_in obtain rid where rid: "map_of t ''run_id'' = Some rid"
    using map_of_None_columns [of t "''run_id''"] by (cases "map_of t ''run_id''") (auto simp: cols)
  have c_ln: "col_or_nan t ''line_num'' = lnum" and c_rid: "col_or_nan t ''run_id'' = rid"
    by (simp_all add: col_or_nan_def lnum rid)
  have len_rid: "length rid = nrows t"
    using wf rid by (rule wf_table_length)
  with pos have rid_ne: "rid \<noteq> []" by auto
  have wide_eq: "wide = zip (''bunk'' # run_id_fields) D
      @ map (\<lambda>(c, vs). (c, g c vs)) (filter (\<lambda>(c, vs). c \<noteq> ''run_id'') t)"
    by (simp add: wide_def spec_wide_def D_def g_def)
  have lenD: "length D = Suc (length run_id_fields)" by (simp add: D_def)
  \<comment> \<open>the line numbers\<close>
  have set1: "setitem t ''line_num'' (map line_minus_1 lnum) = map (\<lambda>(c, vs). (c, g c vs)) t"
  proof -
    have "setitem t ''line_num'' (map line_minus_1 lnum)
        = map (\<lambda>(c, x). (c, if c = ''line_num'' then map line_minus_1 lnum else x)) t"
      using dt ln_in by (intro setitem_present) (simp_all add: cols)
    also have "\<dots> = map (\<lambda>(c, vs). (c, g c vs)) t"
    proof (intro map_cong refl)
      fix p assume "p \<in> set t"
      moreover obtain c vs where p: "p = (c, vs)" by (cases p)
      ultimately have "map_of t c = Some vs"
        using dt by (simp add: columns_def)
      with lnum have "c = ''line_num'' \<Longrightarrow> vs = lnum" by simp
      then show "(case p of (c, x) \<Rightarrow> (c, if c = ''line_num'' then map line_minus_1 lnum else x))
          = (case p of (c, vs) \<Rightarrow> (c, g c vs))"
        by (auto simp: p g_def)
    qed
    finally show ?thesis .
  qed
  \<comment> \<open>the run ids\<close>
  have get_rid: "getitem (map (\<lambda>(c, vs). (c, g c vs)) t) ''run_id'' = Inr rid"
    unfolding set1 [symmetric] by (simp add: getitem_def map_of_setitem rid)
  have del: "AList.delete ''run_id'' (map (\<lambda>(c, vs). (c, g c vs)) t)
      = map (\<lambda>(c, vs). (c, g c vs)) (filter (\<lambda>(c, vs). c \<noteq> ''run_id'') t)"
    by (simp add: delete_filter filter_map comp_def split_def)
  have split: "str_split_expand rid CHR ''_'' = Inr D"
    unfolding D_def c_rid using rid_ne cells [unfolded c_rid] by (rule split_expand_run_ids)
  have named: "set_columns D (''bunk'' # run_id_fields) = Inr (zip (''bunk'' # run_id_fields) D)"
    by (simp add: set_columns_def lenD)
  \<comment> \<open>the wide table and its reshaping\<close>
  have cw: "columns wide = ''bunk'' # run_id_fields @ filter (\<lambda>c. c \<noteq> ''run_id'') (columns t)"
    unfolding wide_eq
    by (simp add: columns_zip lenD columns_map_keep columns_filter_name)
  have dw: "distinct (columns wide)"
    using dist by (auto simp: cw cols)
  have rid_durs: "''run_id'' \<notin> set durs"
    using dist rid_in by auto
  then have sub: "set durs \<subseteq> set (columns wide)"
    by (auto simp: cw cols)
  have melted: "melt wide (filter (\<lambda>f. f \<notin> set durs) (columns wide)) durs ''duration'' ''conc''
      = Inr (spec_long wide durs)"
    using dw sub by (rule melt_spec)
  define L32 where "L32 = map (\<lambda>v. case v of I64 w \<Rightarrow> I32 (ucast w) | _ \<Rightarrow> v) lnum"
  define T1 where "T1 = map (\<lambda>(c, vs). (c, g c vs)) t"
  define T2 where "T2 = map (\<lambda>(c, vs). (c, g c vs)) (filter (\<lambda>(c, vs). c \<noteq> ''run_id'') t)"
  define Z where "Z = zip (''bunk'' # run_id_fields) D"
  have s1: "mapE (astype_int32 E) lnum = Inr L32"
    unfolding L32_def using i64 [unfolded c_ln] by (rule astype_int32_i64)
  have s2: "setitem t ''line_num'' (map minus_1 L32) = T1"
    unfolding L32_def T1_def minus_1_i64 [OF i64 [unfolded c_ln]] by (rule set1)
  have s3: "getitem T1 ''run_id'' = Inr rid"
    unfolding T1_def by (rule get_rid)
  have s4: "AList.delete ''run_id'' T1 = T2"
    unfolding T1_def T2_def by (rule del)
  have s6: "set_columns D (''bunk'' # run_id_fields) = Inr Z"
    unfolding Z_def by (rule named)
  have s7: "melt (Z @ T2) (filter (\<lambda>f. f \<notin> set durs) (columns (Z @ T2))) durs
      ''duration'' ''conc'' = Inr (spec_long wide durs)"
    using melted unfolding wide_eq Z_def T2_def .
  have body: "pwc_outfile_body E a = Inr (spec_long wide durs)"
    using s7
    by (simp add: pwc_outfile_body_def Let_def read_csv_def getattr_def pop_def
        concat_axis1_def np ids rids parse [folded durs_def] lnum s1 s2 s3 s4 split s6
        flip: durs_def)
  have first: "pwc_outfile E a = Inr (spec_long wide durs)"
    unfolding pwc_outfile_def using body by (rule test_path_Inr)
  have bunk: "''bunk'' \<notin> set durs" using dist by auto
  have names: "columns (spec_long wide durs) =
      ''bunk'' # run_id_fields @ filter (\<lambda>c. c \<noteq> ''run_id'') id_fields @ [''duration'', ''conc'']"
  proof -
    have "filter (\<lambda>c. c \<notin> set durs) (columns wide)
        = ''bunk'' # run_id_fields @ filter (\<lambda>c. c \<noteq> ''run_id'') id_fields"
    proof -
      have a: "filter (\<lambda>c. c \<notin> set durs) run_id_fields = run_id_fields"
        using dist by (auto simp: filter_id_conv)
      have b: "filter (\<lambda>x. x \<noteq> ''run_id'' \<and> x \<notin> set durs) id_fields
          = filter (\<lambda>c. c \<noteq> ''run_id'') id_fields"
        using dist by (intro filter_cong) auto
      have c: "filter (\<lambda>x. x \<noteq> ''run_id'' \<and> x \<notin> set durs) durs = []"
        by (simp add: filter_empty_conv)
      show ?thesis
        using bunk by (simp add: cw cols a b c)
    qed
    then show ?thesis
      by (simp add: spec_long_def columns_map_keep columns_filter_name)
  qed
  have rows: "nrows (spec_long wide durs) = nrows t * length durs"
  proof -
    have "spec_long wide durs =
        (''bunk'', concat (replicate (length durs) (map (nth_part 0) rid))) # tl (spec_long wide durs)"
      using bunk by (simp add: spec_long_def wide_eq D_def c_rid upt_rec [of 0])
    then have "nrows (spec_long wide durs)
        = length (concat (replicate (length durs) (map (nth_part 0) rid)))"
      unfolding nrows_def by (metis (no_types, lifting) list.simps(5) case_prod_conv)
    also have "\<dots> = length durs * length rid"
      by (simp add: length_concat_replicate)
    finally show ?thesis by (simp add: len_rid)
  qed
  from first names rows show ?thesis
    by (simp add: wide_def durs_def)
qed

subsection \<open>\<open>pwc_outfile\<close> on the sample file\<close>

lemma pwc_file_pwc_table:
  "pwc_file [''line_num'', ''run_id''] [''region'', ''cdl''] [''acute'', ''chronic''] pwc_table"
  by (simp add: pwc_file_def pwc_table_def columns_def wf_table_def nrows_def col_or_nan_def
      is_i64_def run_id_cell_def)

lemma spec_wide_pwc_table:
  "spec_wide pwc_table [''region'', ''cdl''] =
     [(''bunk'', [Str ''x'', Str ''x'']), (''region'', [Str ''07'', Str ''07'']),
      (''cdl'', [Str ''24'', Str ''1'']), (''line_num'', [I32 1, I32 2]),
      (''acute'', [F64 (3 / 2), F64 (1 / 4)]), (''chronic'', [F64 (1 / 2), NaN])]"
  by (simp add: spec_wide_def pwc_table_def col_or_nan_def nth_part_def line_minus_1_def)

lemma spec_long_pwc_table:
  "spec_long (spec_wide pwc_table [''region'', ''cdl'']) [''acute'', ''chronic''] =
     [(''bunk'', [Str ''x'', Str ''x'', Str ''x'', Str ''x'']),
      (''region'', [Str ''07'', Str ''07'', Str ''07'', Str ''07'']),
      (''cdl'', [Str ''24'', Str ''1'', Str ''24'', Str ''1'']),
      (''line_num'', [I32 1, I32 2, I32 1, I32 2]),
      (''duration'', [Str ''acute'', Str ''acute'', Str ''chronic'', Str ''chronic'']),
      (''conc'', [F64 (3 / 2), F64 (1 / 4), F64 (1 / 2), NaN])]"
  unfolding spec_wide_pwc_table
  by (simp add: spec_long_def col_or_nan_def nrows_def)

text \<open>The theorem on the sample file: two rows and two durations give four rows.\<close>

theorem pwc_outfile_long_form_witness:
  "\<not> arg_preprocessed pwc_args
   \<and> fetch (fields_now pwc_env) ''pwc_id_fields'' = Inr [''line_num'', ''run_id'']
   \<and> fetch (fields_now pwc_env) ''pwc_run_id'' = Inr [''region'', ''cdl'']
   \<and> parse_csv pwc_env (outfile_path pwc_env pwc_args)
        (default_opts\<lparr>names := Some ([''line_num'', ''run_id''] @ pwc_durations pwc_env),
                       delimiter := Some whitespace\<rparr>) = Inr pwc_table
   \<and> pwc_file [''line_num'', ''run_id''] [''region'', ''cdl''] (pwc_durations pwc_env) pwc_table
   \<and> pwc_outfile pwc_env pwc_args =
       Inr [(''bunk'', [Str ''x'', Str ''x'', Str ''x'', Str ''x'']),
            (''region'', [Str ''07'', Str ''07'', Str ''07'', Str ''07'']),
            (''cdl'', [Str ''24'', Str ''1'', Str ''24'', Str ''1'']),
            (''line_num'', [I32 1, I32 2, I32 1, I32 2]),
            (''duration'', [Str ''acute'', Str ''acute'', Str ''chronic'', Str ''chronic'']),
            (''conc'', [F64 (3 / 2), F64 (1 / 4), F64 (1 / 2), NaN])]
   \<and> nrows pwc_table * length (pwc_durations pwc_env) = 4"
proof -
  have np: "\<not> arg_preprocessed pwc_args"
    by (simp add: pwc_args_def)
  have durs: "pwc_durations pwc_env = [''acute'', ''chronic'']"
    by (simp add: pwc_env_def)
  have ids: "fetch (fields_now pwc_env) ''pwc_id_fields'' = Inr [''line_num'', ''run_id'']"
    by (simp add: pwc_env_def pwc_fields_def)
  have rids: "fetch (fields_now pwc_env) ''pwc_run_id'' = Inr [''region'', ''cdl'']"
    by (simp add: pwc_env_def pwc_fields_def)
  have parse: "parse_csv pwc_env (outfile_path pwc_env pwc_args)
        (default_opts\<lparr>names := Some ([''line_num'', ''run_id''] @ pwc_durations pwc_env),
                       delimiter := Some whitespace\<rparr>) = Inr pwc_table"
    by (simp add: pwc_env_def)
  have wfile: "pwc_file [''line_num'', ''run_id''] [''region'', ''cdl''] (pwc_durations pwc_env)
      pwc_table"
    unfolding durs by (rule pwc_file_pwc_table)
  have rows: "nrows pwc_table * length (pwc_durations pwc_env) = 4"
    by (simp add: durs nrows_def pwc_table_def)
  from pwc_outfile_long_form [OF np ids rids parse wfile]
  have "pwc_outfile pwc_env pwc_args =
      Inr (spec_long (spec_wide pwc_table [''region'', ''cdl'']) [''acute'', ''chronic''])"
    by (simp add: durs)
  with np ids rids parse wfile rows show ?thesis
    by (simp only: spec_long_pwc_table simp_thms)
qed

subsection \<open>\<open>soils\<close>: the steps of a call\<close>

text \<open>
  Each step of \<open>soils\<close> as the claim words it: the file \<open>ssurgo\<close> reads, the
  concatenation of a single table, the column \<open>state\<close> and the renaming.
\<close>

lemma ssurgo_spec: "ssurgo E F st name = spec_soil_file E F st name"
proof (cases "fetch_dtypes F name (Some ''external_name'')")
  case (Inl e)
  then show ?thesis by (simp add: ssurgo_def spec_soil_file_def)
next
  case (Inr p)
  obtain cols types where p: "p = (cols, types)" by (cases p)
  show ?thesis
    by (cases "parse_csv E (condensed_soil_path E [AStr st, AStr name])
                 \<lparr>usecols = Some cols, dtype = PerCol types, names = None, delimiter = None\<rparr>")
       (simp_all add: ssurgo_def spec_soil_file_def Inr p read_csv_def usecols_dtype_def
          default_opts_def)
qed

lemma first_seen_distinct: "distinct xs \<Longrightarrow> first_seen xs = xs"
  by (simp add: first_seen_def distinct_remdups_id)

lemma pd_concat_single: "distinct (columns t) \<Longrightarrow> pd_concat [t] = Inr t"
  by (simp add: pd_concat_def first_seen_distinct map_columns_id)

lemma setitem_scalar_state:
  "distinct (columns t) \<Longrightarrow> setitem_scalar t ''state'' (Str s) = spec_tagged t s"
  by (simp add: setitem_scalar_def spec_tagged_def setitem_present setitem_fresh)

lemma distinct_spec_tagged:
  "distinct (columns t) \<Longrightarrow> distinct (columns (spec_tagged t s))"
proof -
  have "columns (map (\<lambda>(c, vs). (c, if c = ''state'' then w else vs)) t) = columns t" for w
    by (induction t) (auto simp: columns_def)
  then show "distinct (columns t) \<Longrightarrow> distinct (columns (spec_tagged t s))"
    by (simp add: spec_tagged_def)
qed

lemma rename_columns_spec: "rename_columns t m = spec_renamed m t"
  by (induction t)
     (auto simp: rename_columns_def spec_renamed_def columns_def split: option.splits)

text \<open>
  The loop over \<open>soil_tables\<close> for one state: the first pass takes \<open>muaggatt\<close> as it
  is, so that the key paired with it is not used; the second and the third pass make one
  outer join each.
\<close>

lemma state_table_loop_soil_tables:
  assumes "spec_soil_file E F s ''muaggatt'' = Inr muaggatt"
    and "spec_soil_file E F s ''component'' = Inr component"
    and "pd_merge E muaggatt component [''mukey''] Outer (''_x'', ''_y'') = Inr joined"
    and "spec_soil_file E F s ''chorizon'' = Inr chorizon"
    and "pd_merge E joined chorizon [''cokey''] Outer (''_x'', ''_y'') = Inr state_table"
  shows "state_table_loop E F s soil_tables None joins =
           (joins @ state_joins, Inr (Some state_table))"
  using assms
  by (simp add: soil_tables_def bindJ_def no_join_def df_merge_def ssurgo_spec
      default_suffixes_def state_joins_def)

lemma state_table_loop_outer_joined:
  assumes "spec_outer_joined E F s = Inr t"
  shows "state_table_loop E F s soil_tables None joins = (joins @ state_joins, Inr (Some t))"
proof -
  from assms obtain muaggatt component joined chorizon where
    "spec_soil_file E F s ''muaggatt'' = Inr muaggatt"
    "spec_soil_file E F s ''component'' = Inr component"
    "pd_merge E muaggatt component [''mukey''] Outer (''_x'', ''_y'') = Inr joined"
    "spec_soil_file E F s ''chorizon'' = Inr chorizon"
    "pd_merge E joined chorizon [''cokey''] Outer (''_x'', ''_y'') = Inr t"
    unfolding spec_outer_joined_def bindE_eq_Inr by blast
  then show ?thesis by (rule state_table_loop_soil_tables)
qed

text \<open>
  The loop over the states: every state is processed alike and in order, with two outer
  joins each, and its table gets the column \<open>state\<close>.
\<close>

lemma region_states_loop_spec:
  assumes "\<forall>s\<in>set sts. spec_outer_joined E F s = Inr (J s) \<and> distinct (columns (J s))"
  shows "region_states_loop E F sts acc joins =
           (joins @ concat (map (\<lambda>s. state_joins) sts),
            Inr (acc @ map (\<lambda>s. spec_tagged (J s) s) sts))"
  using assms
proof (induction sts arbitrary: acc joins)
  case Nil
  then show ?case by (simp add: no_join_def)
next
  case (Cons s sts)
  from Cons.prems have s: "spec_outer_joined E F s = Inr (J s)" "distinct (columns (J s))"
    and rest: "\<forall>s\<in>set sts. spec_outer_joined E F s = Inr (J s) \<and> distinct (columns (J s))"
    by simp_all
  show ?case
    by (simp add: bindJ_def no_join_def state_table_loop_outer_joined [OF s(1)]
        setitem_scalar_state [OF s(2)] Cons.IH [OF rest])
qed

text \<open>
  C7 (as amended). Called with a state \<open>s\<close> and no region, \<open>soils\<close> processes that one
  state, whatever \<open>states_nhd\<close> holds. Let \<open>fields.refresh()\<close> succeed, let the shared
  \<open>valu\<close> file and the state's \<open>muaggatt\<close>, \<open>component\<close> and \<open>chorizon\<close> files be
  read, and let the joins succeed: the outer join of \<open>muaggatt\<close> with \<open>component\<close> on
  \<open>mukey\<close>, the outer join of the result with \<open>chorizon\<close> on \<open>cokey\<close>, which gives
  the state table (with distinct column names), and the inner join on \<open>mukey\<close> of the
  state table, tagged with the column \<open>state\<close>, with \<open>valu\<close>. Then the call makes
  exactly these three joins in this order, two outer joins and the inner one, and returns
  the table of the last join with its columns renamed by \<open>fields.convert\<close>. The
  concatenation of the single state table is that table.
\<close>

theorem soils_single_state:
  assumes "refresh E (fields_now E) = Inr F"
    and "spec_soil_file E F [] ''valu'' = Inr valu"
    and "spec_soil_file E F s ''muaggatt'' = Inr muaggatt"
    and "spec_soil_file E F s ''component'' = Inr component"
    and "pd_merge E muaggatt component [''mukey''] Outer (''_x'', ''_y'') = Inr joined"
    and "spec_soil_file E F s ''chorizon'' = Inr chorizon"
    and "pd_merge E joined chorizon [''cokey''] Outer (''_x'', ''_y'') = Inr state_table"
    and "distinct (columns state_table)"
    and "pd_merge E (spec_tagged state_table s) valu [''mukey''] Inner (''_x'', ''_y'')
           = Inr soil_data"
  shows "soils E mode None (Some s) =
           ([([''mukey''], Outer), ([''cokey''], Outer), ([''mukey''], Inner)],
            Inr (spec_renamed (convert F) soil_data))"
proof -
  have loop: "state_table_loop E F s soil_tables None [] =
      ([] @ state_joins, Inr (Some state_table))"
    using assms(3-7) by (rule state_table_loop_soil_tables)
  have tagged: "setitem_scalar state_table ''state'' (Str s) = spec_tagged state_table s"
    using assms(8) by (rule setitem_scalar_state)
  have stacked: "pd_concat [spec_tagged state_table s] = Inr (spec_tagged state_table s)"
    using assms(8) by (intro pd_concat_single distinct_spec_tagged)
  show ?thesis
    using assms(1,2,9)
    by (simp add: soils_def bindJ_def no_join_def df_merge_def ssurgo_spec loop tagged stacked
        default_suffixes_def state_joins_def rename_columns_spec)
qed

text \<open>
  Beyond the call for one state: for a region, every state of \<open>states_nhd[region]\<close> is
  processed in order, each with its two outer joins, and the tagged state tables are
  stacked (over all their column names, a missing column filled with missing values)
  before the inner join with \<open>valu\<close>.
\<close>

lemma soils_region:
  assumes "refresh E (fields_now E) = Inr F"
    and "states_nhd E region = Some sts" and "region \<noteq> None \<or> state = None" and "sts \<noteq> []"
    and "spec_soil_file E F [] ''valu'' = Inr valu"
    and "\<forall>s\<in>set sts. spec_outer_joined E F s = Inr (J s) \<and> distinct (columns (J s))"
    and "state_tables = map (\<lambda>s. spec_tagged (J s) s) sts"
    and "pd_merge E (spec_vstack (first_seen (concat (map columns state_tables))) state_tables)
           valu [''mukey''] Inner (''_x'', ''_y'') = Inr soil_data"
  shows "soils E mode region state =
           (concat (map (\<lambda>s. state_joins) sts) @ [([''mukey''], Inner)],
            Inr (spec_renamed (convert F) soil_data))"
proof -
  have loop: "region_states_loop E F sts [] [] =
      ([] @ concat (map (\<lambda>s. state_joins) sts), Inr ([] @ state_tables))"
    unfolding assms(7) using assms(6) by (rule region_states_loop_spec)
  have stacked: "pd_concat state_tables =
      Inr (spec_vstack (first_seen (concat (map columns state_tables))) state_tables)"
    using assms(4) by (simp add: pd_concat_def spec_vstack_def assms(7))
  show ?thesis
    using assms(1,2,3,5,8)
    by (cases region; cases state)
       (simp_all add: soils_def bindJ_def no_join_def df_merge_def ssurgo_spec loop stacked
          default_suffixes_def rename_columns_spec del: region_states_loop.simps)
qed

subsection \<open>\<open>soils\<close> on the sample files\<close>

lemma soil_files_read:
  "spec_soil_file soil_env soil_fields [] ''valu'' =
     Inr [(''mukey'', [I64 101, I64 102]), (''rootznaws'', [F64 150, F64 90])]"
  "spec_soil_file soil_env soil_fields ''IA'' ''muaggatt'' =
     Inr [(''mukey'', [I64 101, I64 102]), (''hydgrpdcd'', [Str ''B'', Str ''C''])]"
  "spec_soil_file soil_env soil_fields ''IA'' ''component'' =
     Inr [(''mukey'', [I64 101, I64 102]), (''cokey'', [I64 7, I64 8]),
          (''comppct_r'', [I64 85, I64 100])]"
  "spec_soil_file soil_env soil_fields ''IA'' ''chorizon'' =
     Inr [(''cokey'', [I64 7, I64 8]), (''hzdepb_r'', [I64 30, I64 25])]"
  by (simp_all add: spec_soil_file_def soil_env_def soil_fields_def soil_name_def soil_files_def)

lemma soil_env_merge: "pd_merge soil_env = soil_merge"
  by (simp add: soil_env_def)

lemma soil_env_fields:
  "refresh soil_env (fields_now soil_env) = Inr soil_fields"
  by (simp add: soil_env_def sample_env_def)

text \<open>
  The theorem on the sample files: the call for Iowa reads the four files, makes the
  three joins and returns the seven columns, \<open>mukey\<close> and \<open>hzdepb_r\<close> renamed and
  \<open>state\<close> holding the state in both rows. \<open>states_nhd\<close> holds no region.
\<close>

theorem soils_single_state_witness:
  "refresh soil_env (fields_now soil_env) = Inr soil_fields
   \<and> spec_soil_file soil_env soil_fields [] ''valu'' =
       Inr [(''mukey'', [I64 101, I64 102]), (''rootznaws'', [F64 150, F64 90])]
   \<and> spec_soil_file soil_env soil_fields ''IA'' ''muaggatt'' =
       Inr [(''mukey'', [I64 101, I64 102]), (''hydgrpdcd'', [Str ''B'', Str ''C''])]
   \<and> spec_soil_file soil_env soil_fields ''IA'' ''component'' =
       Inr [(''mukey'', [I64 101, I64 102]), (''cokey'', [I64 7, I64 8]),
            (''comppct_r'', [I64 85, I64 100])]
   \<and> pd_merge soil_env
         [(''mukey'', [I64 101, I64 102]), (''hydgrpdcd'', [Str ''B'', Str ''C''])]
         [(''mukey'', [I64 101, I64 102]), (''cokey'', [I64 7, I64 8]),
          (''comppct_r'', [I64 85, I64 100])]
         [''mukey''] Outer (''_x'', ''_y'') =
       Inr [(''mukey'', [I64 101, I64 102]), (''hydgrpdcd'', [Str ''B'', Str ''C'']),
            (''cokey'', [I64 7, I64 8]), (''comppct_r'', [I64 85, I64 100])]
   \<and> spec_soil_file soil_env soil_fields ''IA'' ''chorizon'' =
       Inr [(''cokey'', [I64 7, I64 8]), (''hzdepb_r'', [I64 30, I64 25])]
   \<and> pd_merge soil_env
         [(''mukey'', [I64 101, I64 102]), (''hydgrpdcd'', [Str ''B'', Str ''C'']),
          (''cokey'', [I64 7, I64 8]), (''comppct_r'', [I64 85, I64 100])]
         [(''cokey'', [I64 7, I64 8]), (''hzdepb_r'', [I64 30, I64 25])]
         [''cokey''] Outer (''_x'', ''_y'') =
       Inr [(''mukey'', [I64 101, I64 102]), (''hydgrpdcd'', [Str ''B'', Str ''C'']),
            (''cokey'', [I64 7, I64 8]), (''comppct_r'', [I64 85, I64 100]),
            (''hzdepb_r'', [I64 30, I64 25])]
   \<and> distinct [''mukey'', ''hydgrpdcd'', ''cokey'', ''comppct_r'', ''hzdepb_r'']
   \<and> pd_merge soil_env
         [(''mukey'', [I64 101, I64 102]), (''hydgrpdcd'', [Str ''B'', Str ''C'']),
          (''cokey'', [I64 7, I64 8]), (''comppct_r'', [I64 85, I64 100]),
          (''hzdepb_r'', [I64 30, I64 25]), (''state'', [Str ''IA'', Str ''IA''])]
         [(''mukey'', [I64 101, I64 102]), (''rootznaws'', [F64 150, F64 90])]
         [''mukey''] Inner (''_x'', ''_y'') =
       Inr [(''mukey'', [I64 101, I64 102]), (''hydgrpdcd'', [Str ''B'', Str ''C'']),
            (''cokey'', [I64 7, I64 8]), (''comppct_r'', [I64 85, I64 100]),
            (''hzdepb_r'', [I64 30, I64 25]), (''state'', [Str ''IA'', Str ''IA'']),
            (''rootznaws'', [F64 150, F64 90])]
   \<and> states_nhd soil_env None = None
   \<and> soils soil_env Sam None (Some ''IA'') =
       ([([''mukey''], Outer), ([''cokey''], Outer), ([''mukey''], Inner)],
        Inr [(''soil_id'', [I64 101, I64 102]), (''hydgrpdcd'', [Str ''B'', Str ''C'']),
             (''cokey'', [I64 7, I64 8]), (''comppct_r'', [I64 85, I64 100]),
             (''horizon_bottom'', [I64 30, I64 25]), (''state'', [Str ''IA'', Str ''IA'']),
             (''rootznaws'', [F64 150, F64 90])])"
proof -
  let ?muaggatt = "[(''mukey'', [I64 101, I64 102]), (''hydgrpdcd'', [Str ''B'', Str ''C''])]"
  let ?component = "[(''mukey'', [I64 101, I64 102]), (''cokey'', [I64 7, I64 8]),
      (''comppct_r'', [I64 85, I64 100])]"
  let ?chorizon = "[(''cokey'', [I64 7, I64 8]), (''hzdepb_r'', [I64 30, I64 25])]"
  let ?valu = "[(''mukey'', [I64 101, I64 102]), (''rootznaws'', [F64 150, F64 90])]"
  let ?joined = "[(''mukey'', [I64 101, I64 102]), (''hydgrpdcd'', [Str ''B'', Str ''C'']),
      (''cokey'', [I64 7, I64 8]), (''comppct_r'', [I64 85, I64 100])]"
  let ?state_table = "[(''mukey'', [I64 101, I64 102]), (''hydgrpdcd'', [Str ''B'', Str ''C'']),
      (''cokey'', [I64 7, I64 8]), (''comppct_r'', [I64 85, I64 100]),
      (''hzdepb_r'', [I64 30, I64 25])]"
  let ?tagged = "[(''mukey'', [I64 101, I64 102]), (''hydgrpdcd'', [Str ''B'', Str ''C'']),
      (''cokey'', [I64 7, I64 8]), (''comppct_r'', [I64 85, I64 100]),
      (''hzdepb_r'', [I64 30, I64 25]), (''state'', [Str ''IA'', Str ''IA''])]"
  let ?soil_data = "[(''mukey'', [I64 101, I64 102]), (''hydgrpdcd'', [Str ''B'', Str ''C'']),
      (''cokey'', [I64 7, I64 8]), (''comppct_r'', [I64 85, I64 100]),
      (''hzdepb_r'', [I64 30, I64 25]), (''state'', [Str ''IA'', Str ''IA'']),
      (''rootznaws'', [F64 150, F64 90])]"
  have join1: "pd_merge soil_env ?muaggatt ?component [''mukey''] Outer (''_x'', ''_y'')
      = Inr ?joined"
    by (simp add: soil_env_merge soil_merge_def)
  have join2: "pd_merge soil_env ?joined ?chorizon [''cokey''] Outer (''_x'', ''_y'')
      = Inr ?state_table"
    by (simp add: soil_env_merge soil_merge_def)
  have names: "distinct (columns ?state_table)"
    by simp
  have tagged: "spec_tagged ?state_table ''IA'' = ?tagged"
    by (simp add: spec_tagged_def nrows_def)
  have join3: "pd_merge soil_env (spec_tagged ?state_table ''IA'') ?valu [''mukey''] Inner
      (''_x'', ''_y'') = Inr ?soil_data"
    by (simp add: tagged soil_env_merge soil_merge_def)
  have nhd: "states_nhd soil_env None = None"
    by (simp add: soil_env_def sample_env_def)
  have renamed: "spec_renamed (convert soil_fields) ?soil_data =
      [(''soil_id'', [I64 101, I64 102]), (''hydgrpdcd'', [Str ''B'', Str ''C'']),
       (''cokey'', [I64 7, I64 8]), (''comppct_r'', [I64 85, I64 100]),
       (''horizon_bottom'', [I64 30, I64 25]), (''state'', [Str ''IA'', Str ''IA'']),
       (''rootznaws'', [F64 150, F64 90])]"
    by (simp add: spec_renamed_def soil_fields_def)
  from soils_single_state [OF soil_env_fields soil_files_read(1) soil_files_read(2)
      soil_files_read(3) join1 soil_files_read(4) join2 names join3, of Sam]
    soil_env_fields soil_files_read join1 join2 join3 nhd
  show ?thesis
    by (simp add: renamed tagged)
qed

lemma soils_soil_env_joins:
  "fst (soils soil_env Sam None (Some ''IA'')) =
     [([''mukey''], Outer), ([''cokey''], Outer), ([''mukey''], Inner)]"
  by (simp add: soils_def region_states_loop.simps soil_tables_def bindJ_def no_join_def
      df_merge_def ssurgo_spec soil_files_read soil_env_fields soil_env_merge soil_merge_def
      pd_concat_def)

text \<open>
  C7 as the claim states it fails: the claim has three outer joins for a state, the
  first two on \<open>mukey\<close> and the third on \<open>cokey\<close>. On the sample files the call for
  Iowa makes two outer joins, the first on \<open>mukey\<close> and the second on \<open>cokey\<close>: the
  first pass of the loop over \<open>soil_tables\<close> takes \<open>muaggatt\<close> as the state table
  without a join, and the key paired with it is not used.
\<close>

theorem soils_two_outer_joins:
  "outer_joins (fst (soils soil_env Sam None (Some ''IA''))) =
     [([''mukey''], Outer), ([''cokey''], Outer)]
   \<and> outer_joins (fst (soils soil_env Sam None (Some ''IA''))) \<noteq> claimed_state_joins"
  by (simp add: soils_soil_env_joins outer_joins_def claimed_state_joins_def)

end
